theory Spec2Isabelle
  imports Main "HOL-Library.Sublist"
begin

section \<open>The machine actuator of the AWS cluster-api provider\<close>

text \<open>
  The development embeds \<^verbatim>\<open>pkg/cloud/aws/actuators/machine/actuator.go\<close>: the four
  verbs \<^verbatim>\<open>Create\<close>, \<^verbatim>\<open>Delete\<close>, \<^verbatim>\<open>Update\<close>, \<^verbatim>\<open>Exists\<close> and their helpers
  \<^verbatim>\<open>getControlPlaneMachines\<close>, \<^verbatim>\<open>machinesEqual\<close>, \<^verbatim>\<open>isNodeJoin\<close>, \<^verbatim>\<open>getNodeJoinToken\<close>
  and \<^verbatim>\<open>reconcileLBAttachment\<close>.

  The actuator is glue around collaborators that live in other packages (the machine
  scope, the EC2 and ELB services, the deployer, the token issuer). Each collaborator
  is a field of the record \<open>Collaborators\<close>: a function from the state of the outside
  world to a reply and a new state of the world. Nothing is assumed about them, so a
  theorem holds for every behaviour they may have. Every call is appended, with its
  arguments and its reply, to a log of events; the log is what the theorems about
  "no call is issued" and "exactly one call is issued" speak about.

  A Go \<^verbatim>\<open>error\<close> that may be \<^verbatim>\<open>nil\<close> is an \<open>error option\<close>; a pair \<^verbatim>\<open>(x, err)\<close> of which
  exactly one is meaningful is \<open>error + 'a\<close>; a pointer that may be \<^verbatim>\<open>nil\<close> is an
  option; dereferencing \<^verbatim>\<open>nil\<close> is the outcome \<open>Panic\<close>. Logging through \<^verbatim>\<open>klog\<close> has no
  effect on the result and is left out.
\<close>

subsection \<open>Data\<close>

text \<open>
  \<^verbatim>\<open>clusterv1.Machine\<close>, restricted to the fields the actuator reads or writes.
  \<open>ControlPlane\<close> is \<^verbatim>\<open>Spec.Versions.ControlPlane\<close>; \<open>Labels\<close> is \<^verbatim>\<open>ObjectMeta.Labels\<close>;
  \<open>Annotations\<close> is a Go map that may be \<^verbatim>\<open>nil\<close>.
\<close>

record Machine =
  Name :: string
  Namespace :: string
  Labels :: "string \<rightharpoonup> string"
  Annotations :: "(string \<rightharpoonup> string) option"
  ControlPlane :: string

record Cluster =
  ClusterName :: string

text \<open>Reading a Go map at a missing key (or reading a \<^verbatim>\<open>nil\<close> map) gives the empty string.\<close>

definition index :: "(string \<rightharpoonup> string) \<Rightarrow> string \<Rightarrow> string" where
  "index m k = (case m k of None \<Rightarrow> [] | Some v \<Rightarrow> v)"

text \<open>
  \<^verbatim>\<open>v1alpha1.InstanceState\<close> is a string type. Modelled from the spec: its constants are
  declared in \<^verbatim>\<open>pkg/apis/awsprovider/v1alpha1\<close>, outside the sources at hand; they
  are given the names of the states of the EC2 instance lifecycle.
\<close>

type_synonym InstanceState = string

definition InstanceStatePending :: InstanceState where
  "InstanceStatePending = ''pending''"

definition InstanceStateRunning :: InstanceState where
  "InstanceStateRunning = ''running''"

definition InstanceStateShuttingDown :: InstanceState where
  "InstanceStateShuttingDown = ''shutting-down''"

definition InstanceStateTerminated :: InstanceState where
  "InstanceStateTerminated = ''terminated''"

record Instance =
  ID :: string
  State :: InstanceState
  SecurityGroupIDs :: "string list"

record MachineStatus =
  InstanceID :: "string option"
  InstanceState :: "string option"

record MachineConfig =
  AdditionalSecurityGroups :: "string list"
  AdditionalTags :: "(string \<times> string) list"

text \<open>
  \<^verbatim>\<open>actuators.MachineScope\<close>: the machine and cluster it was built for, and the
  configuration and status decoded from the machine. \<open>MachineStatus\<close> is the part the
  verbs write to.
\<close>

record MachineScope =
  scopeMachine :: Machine
  scopeCluster :: Cluster
  MachineConfig :: MachineConfig
  MachineStatus :: MachineStatus

text \<open>\<^verbatim>\<open>aws.StringValue\<close>: the string a pointer points to, the empty string for \<^verbatim>\<open>nil\<close>.\<close>

definition StringValue :: "string option \<Rightarrow> string" where
  "StringValue p = (case p of None \<Rightarrow> [] | Some v \<Rightarrow> v)"

subsection \<open>Errors and outcomes\<close>

text \<open>
  Errors keep their structure instead of a rendered message: \<open>External\<close> is an error
  made by a collaborator; \<open>Errorf fmt args e\<close> is \<^verbatim>\<open>errors.Errorf\<close> with its format
  string, its string arguments and the error it prints, if any; \<open>Wrapf e fmt args\<close> is
  \<^verbatim>\<open>errors.Wrapf\<close>; \<open>RequeueAfterError d\<close> is the controller's
  \<^verbatim>\<open>RequeueAfterError{RequeueAfter: d}\<close>, \<open>d\<close> in nanoseconds as \<^verbatim>\<open>time.Duration\<close>.
\<close>

datatype error =
    External string
  | Errorf string "string list" "error option"
  | Wrapf error string "string list"
  | RequeueAfterError int

text \<open>
  \<^verbatim>\<open>errors.Cause\<close> of \<^verbatim>\<open>github.com/pkg/errors\<close>: it follows the chain of wrapped errors
  down to the first one that wraps nothing. An error made by \<^verbatim>\<open>Errorf\<close> wraps nothing.
\<close>

fun Cause :: "error \<Rightarrow> error" where
  "Cause (Wrapf e _ _) = Cause e"
| "Cause e = e"

definition time_Second :: int where
  "time_Second = 1000000000"

definition time_Minute :: int where
  "time_Minute = 60 * time_Second"

datatype 'a outcome = Return 'a | Panic

subsection \<open>Collaborators, events and the state\<close>

text \<open>Handles of the Kubernetes client libraries are opaque; a name stands for each.\<close>

type_synonym RestConfig = string
type_synonym CoreV1Client = string

datatype event =
    EvNewMachineScope Machine Cluster "error + MachineScope"
  | EvClose MachineScope
  | EvGetIP Cluster "error + string"
  | EvGetKubeConfig Cluster "error + string"
  | EvList MachineScope "error + Machine list"
  | EvMachineExists MachineScope "error + bool"
  | EvBuildConfigFromKubeconfigGetter string string "error + RestConfig"
  | EvNewForConfig RestConfig "error + CoreV1Client"
  | EvNewBootstrap CoreV1Client int "error + string"
  | EvCreateOrGetMachine MachineScope string string "error + Instance"
  | EvInstanceIfExists string "error + Instance option"
  | EvTerminateInstance string "error option"
  | EvRegisterInstanceWithAPIServerELB string "error option"
  | EvEnsureSecurityGroups Machine string "string list" "string list" "error + bool"
  | EvEnsureTags Machine "string option" "(string \<times> string) list" "error + bool"

text \<open>
  The collaborators, none of which is defined in the file. The EC2 and ELB services are
  built from the scope by \<^verbatim>\<open>ec2.NewService\<close> and \<^verbatim>\<open>elb.NewService\<close>, which only wrap it.
  \<open>BuildConfigFromKubeconfigGetter\<close> takes the URL and the kubeconfig that the getter
  closure loads. \<open>ensureSecurityGroups\<close> and \<open>ensureTags\<close> are methods of the actuator
  defined in other files of the package. \<open>IsFailedDependency\<close> is the classification of
  \<^verbatim>\<open>awserrors\<close>. \<open>Sprintf\<close> is \<^verbatim>\<open>fmt.Sprintf\<close> of the Go library, a pure function of
  the format and the arguments it prints.
\<close>

record 'w Collaborators =
  NewMachineScope :: "Machine \<Rightarrow> Cluster \<Rightarrow> 'w \<Rightarrow> (error + MachineScope) \<times> 'w"
  Close :: "MachineScope \<Rightarrow> 'w \<Rightarrow> 'w"
  GetIP :: "Cluster \<Rightarrow> 'w \<Rightarrow> (error + string) \<times> 'w"
  GetKubeConfig :: "Cluster \<Rightarrow> 'w \<Rightarrow> (error + string) \<times> 'w"
  MachineClient_List :: "MachineScope \<Rightarrow> 'w \<Rightarrow> (error + Machine list) \<times> 'w"
  MachineExists :: "MachineScope \<Rightarrow> 'w \<Rightarrow> (error + bool) \<times> 'w"
  BuildConfigFromKubeconfigGetter :: "string \<Rightarrow> string \<Rightarrow> 'w \<Rightarrow> (error + RestConfig) \<times> 'w"
  NewForConfig :: "RestConfig \<Rightarrow> 'w \<Rightarrow> (error + CoreV1Client) \<times> 'w"
  NewBootstrap :: "CoreV1Client \<Rightarrow> int \<Rightarrow> 'w \<Rightarrow> (error + string) \<times> 'w"
  CreateOrGetMachine :: "MachineScope \<Rightarrow> string \<Rightarrow> string \<Rightarrow> 'w \<Rightarrow> (error + Instance) \<times> 'w"
  InstanceIfExists :: "string \<Rightarrow> 'w \<Rightarrow> (error + Instance option) \<times> 'w"
  TerminateInstance :: "string \<Rightarrow> 'w \<Rightarrow> error option \<times> 'w"
  RegisterInstanceWithAPIServerELB :: "string \<Rightarrow> 'w \<Rightarrow> error option \<times> 'w"
  ensureSecurityGroups ::
    "Machine \<Rightarrow> string \<Rightarrow> string list \<Rightarrow> string list \<Rightarrow> 'w \<Rightarrow> (error + bool) \<times> 'w"
  ensureTags ::
    "Machine \<Rightarrow> string option \<Rightarrow> (string \<times> string) list \<Rightarrow> 'w \<Rightarrow> (error + bool) \<times> 'w"
  IsFailedDependency :: "error \<Rightarrow> bool"
  Sprintf :: "string \<Rightarrow> string list \<Rightarrow> string"

text \<open>The state a verb runs in: the outside world and the log of the calls made so far.\<close>

type_synonym 'w st = "'w \<times> event list"

text \<open>
  \<open>call f ev\<close> runs the collaborator \<open>f\<close> in the current world and logs the event
  \<open>ev r\<close> for its reply \<open>r\<close>.
\<close>

definition call :: "('w \<Rightarrow> 'r \<times> 'w) \<Rightarrow> ('r \<Rightarrow> event) \<Rightarrow> 'w st \<Rightarrow> 'r \<times> 'w st" where
  "call f ev s = (case f (fst s) of (r, w') \<Rightarrow> (r, (w', snd s @ [ev r])))"

text \<open>The deferred \<^verbatim>\<open>scope.Close()\<close>, which sees the scope as it is when the verb ends.\<close>

definition close :: "'w Collaborators \<Rightarrow> MachineScope \<Rightarrow> 'w st \<Rightarrow> 'w st" where
  "close B scope s = (Close B scope (fst s), snd s @ [EvClose scope])"

subsection \<open>The helpers\<close>

text \<open>
  \<^verbatim>\<open>getControlPlaneMachines\<close>: the loop appends to \<^verbatim>\<open>cpm\<close> (the accumulator of the fold)
  a copy of every item whose control-plane version is not the empty string.
\<close>

definition getControlPlaneMachines :: "Machine list \<Rightarrow> Machine list" where
  "getControlPlaneMachines items =
     foldl (\<lambda>cpm m. if ControlPlane m \<noteq> [] then cpm @ [m] else cpm) [] items"

definition machinesEqual :: "Machine \<Rightarrow> Machine \<Rightarrow> bool" where
  "machinesEqual m1 m2 \<longleftrightarrow> Name m1 = Name m2 \<and> Namespace m1 = Namespace m2"

text \<open>
  The \<^verbatim>\<open>for\<close> loop of \<^verbatim>\<open>isNodeJoin\<close> over the candidates that are left. It ends with an
  error at the first scope or existence check that fails, with \<open>True\<close> at the first
  candidate that exists (the \<^verbatim>\<open>break\<close>), and with the value of \<^verbatim>\<open>contolPlaneExists\<close>
  when the candidates are used up.
\<close>

fun isNodeJoin_loop ::
  "'w Collaborators \<Rightarrow> Cluster \<Rightarrow> Machine list \<Rightarrow> bool \<Rightarrow> 'w st \<Rightarrow> (error + bool) \<times> 'w st"
where
  "isNodeJoin_loop B cluster [] contolPlaneExists s = (Inr contolPlaneExists, s)"
| "isNodeJoin_loop B cluster (cm # rest) contolPlaneExists s =
     (case call (NewMachineScope B cm cluster) (EvNewMachineScope cm cluster) s of
        (Inl err, s1) \<Rightarrow>
          (Inl (Wrapf err ''failed to create machine scope for machine %q'' [Name cm]), s1)
      | (Inr m, s1) \<Rightarrow>
          (case call (MachineExists B m) (EvMachineExists m) s1 of
             (Inl err, s2) \<Rightarrow>
               (Inl (Wrapf err ''failed to verify existence of machine %q''
                      [Name (scopeMachine m)]), s2)
           | (Inr exists, s2) \<Rightarrow>
               if exists then (Inr exists, s2)
               else isNodeJoin_loop B cluster rest exists s2))"

text \<open>
  \<^verbatim>\<open>isNodeJoin\<close>: the \<^verbatim>\<open>switch\<close> on the label \<^verbatim>\<open>set\<close> of the new machine. In the
  default case (lines 108 to 110) the message \<^verbatim>\<open>errMsg\<close> is built by \<^verbatim>\<open>fmt.Sprintf\<close> and is
  then the format, without arguments, of \<^verbatim>\<open>errors.Errorf\<close>.
\<close>

definition isNodeJoin ::
  "'w Collaborators \<Rightarrow> Machine list \<Rightarrow> Machine \<Rightarrow> Cluster \<Rightarrow> 'w st
     \<Rightarrow> (bool \<times> error option) \<times> 'w st"
where
  \<open>isNodeJoin B controlPlaneMachines newMachine cluster s =
     (if index (Labels newMachine) ''set'' = ''node'' then ((True, None), s)
      else if index (Labels newMachine) ''set'' = ''controlplane'' then
        (case isNodeJoin_loop B cluster controlPlaneMachines False s of
           (Inl err, s') \<Rightarrow> ((False, Some err), s')
         | (Inr contolPlaneExists, s') \<Rightarrow> ((contolPlaneExists, None), s'))
      else
        ((False, Some (Errorf
            (Sprintf B
               ''Unknown value %q for label "set" on machine %q, skipping machine creation''
               [index (Labels newMachine) ''set'', Name newMachine])
            [] None)), s))\<close>

text \<open>\<^verbatim>\<open>getNodeJoinToken\<close>; the token lives for \<^verbatim>\<open>10*time.Minute\<close>.\<close>

definition getNodeJoinToken ::
  "'w Collaborators \<Rightarrow> Cluster \<Rightarrow> string \<Rightarrow> 'w st \<Rightarrow> (error + string) \<times> 'w st"
where
  "getNodeJoinToken B cluster controlPlaneURL s =
     (case call (GetKubeConfig B cluster) (EvGetKubeConfig cluster) s of
        (Inl err, s1) \<Rightarrow>
          (Inl (Wrapf err ''failed to retrieve kubeconfig for cluster %q.''
                 [ClusterName cluster]), s1)
      | (Inr kubeConfig, s1) \<Rightarrow>
     (case call (BuildConfigFromKubeconfigGetter B controlPlaneURL kubeConfig)
             (EvBuildConfigFromKubeconfigGetter controlPlaneURL kubeConfig) s1 of
        (Inl err, s2) \<Rightarrow>
          (Inl (Wrapf err ''failed to get client config for cluster at %q''
                 [controlPlaneURL]), s2)
      | (Inr clientConfig, s2) \<Rightarrow>
     (case call (NewForConfig B clientConfig) (EvNewForConfig clientConfig) s2 of
        (Inl err, s3) \<Rightarrow> (Inl (Wrapf err ''failed to initialize new corev1 client'' []), s3)
      | (Inr coreClient, s3) \<Rightarrow>
     (case call (NewBootstrap B coreClient (10 * time_Minute))
             (EvNewBootstrap coreClient (10 * time_Minute)) s3 of
        (Inl err, s4) \<Rightarrow> (Inl (Wrapf err ''failed to create new bootstrap token'' []), s4)
      | (Inr bootstrapToken, s4) \<Rightarrow> (Inr bootstrapToken, s4)))))"

text \<open>\<^verbatim>\<open>reconcileLBAttachment\<close>: only a machine labelled \<^verbatim>\<open>controlplane\<close> is registered.\<close>

definition reconcileLBAttachment ::
  "'w Collaborators \<Rightarrow> MachineScope \<Rightarrow> Machine \<Rightarrow> Instance \<Rightarrow> 'w st \<Rightarrow> error option \<times> 'w st"
where
  "reconcileLBAttachment B scope m i s =
     (if index (Labels m) ''set'' = ''controlplane'' then
        (case call (RegisterInstanceWithAPIServerELB B (ID i))
                (EvRegisterInstanceWithAPIServerELB (ID i)) s of
           (Some err, s1) \<Rightarrow>
             (Some (Wrapf err
                ''could not register control plane instance %q with load balancer'' [ID i]), s1)
         | (None, s1) \<Rightarrow> (None, s1))
      else (None, s))"

subsection \<open>Create\<close>

text \<open>
  The body of \<^verbatim>\<open>Create\<close> after the scope is built (lines 126 to 181). It returns what
  the verb returns, the scope with the status as written, the machine as annotated,
  and the state. The machine is the caller's object, changed in place by the source.
  A successful \<^verbatim>\<open>CreateOrGetMachine\<close> is taken to return an instance, not \<^verbatim>\<open>nil\<close>, and a
  successful \<^verbatim>\<open>List\<close> a list.
\<close>

definition Create_body ::
  "'w Collaborators \<Rightarrow> MachineScope \<Rightarrow> Cluster \<Rightarrow> Machine \<Rightarrow> 'w st
     \<Rightarrow> error option outcome \<times> MachineScope \<times> Machine \<times> 'w st"
where
  "Create_body B scope cluster machine s =
     (case call (GetIP B cluster) (EvGetIP cluster) s of
        (Inl err, s1) \<Rightarrow>
          (Return (Some (Errorf
             ''failed to retrieve controlplane url during machine creation: %+v'' []
             (Some err))), scope, machine, s1)
      | (Inr controlPlaneURL, s1) \<Rightarrow>
     (case call (MachineClient_List B scope) (EvList scope) s1 of
        (Inl err, s2) \<Rightarrow>
          (Return (Some (Wrapf err ''failed to retrieve machines in cluster %q''
             [ClusterName cluster])), scope, machine, s2)
      | (Inr clusterMachines, s2) \<Rightarrow>
     (case isNodeJoin B (getControlPlaneMachines clusterMachines) machine cluster s2 of
        ((_, Some err), s3) \<Rightarrow>
          (Return (Some (Wrapf err
             ''failed to determine whether machine %q should join cluster %q''
             [Name machine, ClusterName cluster])), scope, machine, s3)
      | ((join, None), s3) \<Rightarrow>
     (case (if join then getNodeJoinToken B cluster controlPlaneURL s3 else (Inr [], s3)) of
        (Inl err, s4) \<Rightarrow>
          (Return (Some (Wrapf err ''failed to obtain token for node %q to join cluster %q''
             [Name machine, ClusterName cluster])), scope, machine, s4)
      | (Inr bootstrapToken, s4) \<Rightarrow>
     (case call (GetKubeConfig B cluster) (EvGetKubeConfig cluster) s4 of
        (Inl err, s5) \<Rightarrow>
          (Return (Some (Wrapf err ''failed to retrieve kubeconfig while creating machine %q''
             [Name machine])), scope, machine, s5)
      | (Inr kubeConfig, s5) \<Rightarrow>
     (case call (CreateOrGetMachine B scope bootstrapToken kubeConfig)
             (EvCreateOrGetMachine scope bootstrapToken kubeConfig) s5 of
        (Inl err, s6) \<Rightarrow>
          (if IsFailedDependency B (Cause err)
           then (Return (Some (RequeueAfterError time_Minute)), scope, machine, s6)
           else (Return (Some (Errorf ''failed to create or get machine: %+v'' [] (Some err))),
                 scope, machine, s6))
      | (Inr i, s6) \<Rightarrow>
     (let scope' = scope\<lparr>MachineStatus :=
                     (MachineStatus scope)\<lparr>InstanceID := Some (ID i),
                                             InstanceState := Some (State i)\<rparr>\<rparr>;
          machine' = machine\<lparr>Annotations := Some
                     ((case Annotations machine of None \<Rightarrow> Map.empty | Some a \<Rightarrow> a)
                        (''cluster-api-provider-aws'' \<mapsto> ''true''))\<rparr>
      in case reconcileLBAttachment B scope' machine' i s6 of
           (Some err, s7) \<Rightarrow>
             (Return (Some (Errorf ''failed to reconcile LB attachment: %+v'' [] (Some err))),
              scope', machine', s7)
         | (None, s7) \<Rightarrow> (Return None, scope', machine', s7))))))))"

text \<open>
  \<^verbatim>\<open>Create\<close>, from a world \<open>w\<close> and an empty log. When the scope cannot be built the verb
  returns at once; otherwise \<^verbatim>\<open>defer scope.Close()\<close> makes the close the last thing done,
  however the body ends.
\<close>

definition Create ::
  "'w Collaborators \<Rightarrow> Cluster \<Rightarrow> Machine \<Rightarrow> 'w \<Rightarrow> error option outcome \<times> Machine \<times> 'w st"
where
  "Create B cluster machine w =
     (case call (NewMachineScope B machine cluster) (EvNewMachineScope machine cluster) (w, []) of
        (Inl err, s) \<Rightarrow>
          (Return (Some (Errorf ''failed to create scope: %+v'' [] (Some err))), machine, s)
      | (Inr scope, s) \<Rightarrow>
          (case Create_body B scope cluster machine s of
             (out, scope', machine', s') \<Rightarrow> (out, machine', close B scope' s')))"

subsection \<open>Delete\<close>

text \<open>
  The body of \<^verbatim>\<open>Delete\<close> (lines 233 to 261). Line 235 dereferences
  \<^verbatim>\<open>scope.MachineStatus.InstanceID\<close> with \<^verbatim>\<open>*\<close>; line 255 reads it with
  \<^verbatim>\<open>aws.StringValue\<close>.
\<close>

definition Delete_body :: "'w Collaborators \<Rightarrow> MachineScope \<Rightarrow> 'w st \<Rightarrow> error option outcome \<times> 'w st"
where
  "Delete_body B scope s =
     (case InstanceID (MachineStatus scope) of
        None \<Rightarrow> (Panic, s)
      | Some instanceID \<Rightarrow>
     (case call (InstanceIfExists B instanceID) (EvInstanceIfExists instanceID) s of
        (Inl err, s1) \<Rightarrow>
          (Return (Some (Errorf ''failed to get instance: %+v'' [] (Some err))), s1)
      | (Inr None, s1) \<Rightarrow> (Return None, s1)
      | (Inr (Some instance), s1) \<Rightarrow>
          if State instance = InstanceStateShuttingDown \<or> State instance = InstanceStateTerminated
          then (Return None, s1)
          else
            (case call (TerminateInstance B (StringValue (InstanceID (MachineStatus scope))))
                    (EvTerminateInstance (StringValue (InstanceID (MachineStatus scope)))) s1 of
               (Some err, s2) \<Rightarrow>
                 (Return (Some (Errorf ''failed to terminate instance: %+v'' [] (Some err))), s2)
             | (None, s2) \<Rightarrow> (Return None, s2))))"

definition Delete ::
  "'w Collaborators \<Rightarrow> Cluster \<Rightarrow> Machine \<Rightarrow> 'w \<Rightarrow> error option outcome \<times> 'w st"
where
  "Delete B cluster machine w =
     (case call (NewMachineScope B machine cluster) (EvNewMachineScope machine cluster) (w, []) of
        (Inl err, s) \<Rightarrow> (Return (Some (Errorf ''failed to create scope: %+v'' [] (Some err))), s)
      | (Inr scope, s) \<Rightarrow>
          (case Delete_body B scope s of (out, s') \<Rightarrow> (out, close B scope s')))"

subsection \<open>Update\<close>

text \<open>
  The body of \<^verbatim>\<open>Update\<close> (lines 277 to 308). The arguments of \<^verbatim>\<open>ensureSecurityGroups\<close>
  are evaluated before the call, among them \<^verbatim>\<open>instanceDescription.SecurityGroupIDs\<close>,
  which dereferences the instance that \<^verbatim>\<open>InstanceIfExists\<close> returned.
\<close>

definition Update_body ::
  "'w Collaborators \<Rightarrow> MachineScope \<Rightarrow> Machine \<Rightarrow> 'w st \<Rightarrow> error option outcome \<times> 'w st"
where
  "Update_body B scope machine s =
     (case InstanceID (MachineStatus scope) of
        None \<Rightarrow> (Panic, s)
      | Some instanceID \<Rightarrow>
     (case call (InstanceIfExists B instanceID) (EvInstanceIfExists instanceID) s of
        (Inl err, s1) \<Rightarrow>
          (Return (Some (Errorf ''failed to get instance: %+v'' [] (Some err))), s1)
      | (Inr None, s1) \<Rightarrow> (Panic, s1)
      | (Inr (Some instanceDescription), s1) \<Rightarrow>
     (case call (ensureSecurityGroups B machine instanceID
                   (AdditionalSecurityGroups (MachineConfig scope))
                   (SecurityGroupIDs instanceDescription))
             (EvEnsureSecurityGroups machine instanceID
                   (AdditionalSecurityGroups (MachineConfig scope))
                   (SecurityGroupIDs instanceDescription)) s1 of
        (Inl err, s2) \<Rightarrow>
          (Return (Some (Errorf ''failed to apply security groups: %+v'' [] (Some err))), s2)
      | (Inr _, s2) \<Rightarrow>
     (case call (ensureTags B machine (InstanceID (MachineStatus scope))
                   (AdditionalTags (MachineConfig scope)))
             (EvEnsureTags machine (InstanceID (MachineStatus scope))
                   (AdditionalTags (MachineConfig scope))) s2 of
        (Inl err, s3) \<Rightarrow>
          (Return (Some (Errorf ''failed to ensure tags: %+v'' [] (Some err))), s3)
      | (Inr _, s3) \<Rightarrow> (Return None, s3)))))"

definition Update ::
  "'w Collaborators \<Rightarrow> Cluster \<Rightarrow> Machine \<Rightarrow> 'w \<Rightarrow> error option outcome \<times> 'w st"
where
  "Update B cluster machine w =
     (case call (NewMachineScope B machine cluster) (EvNewMachineScope machine cluster) (w, []) of
        (Inl err, s) \<Rightarrow> (Return (Some (Errorf ''failed to create scope: %+v'' [] (Some err))), s)
      | (Inr scope, s) \<Rightarrow>
          (case Update_body B scope machine s of (out, s') \<Rightarrow> (out, close B scope s')))"

subsection \<open>Exists\<close>

text \<open>The body of \<^verbatim>\<open>Exists\<close> (lines 322 to 353).\<close>

definition Exists_body ::
  "'w Collaborators \<Rightarrow> MachineScope \<Rightarrow> Machine \<Rightarrow> 'w st
     \<Rightarrow> (bool \<times> error option) outcome \<times> 'w st"
where
  "Exists_body B scope machine s =
     (case InstanceID (MachineStatus scope) of
        None \<Rightarrow> (Return (False, None), s)
      | Some instanceID \<Rightarrow>
     (case call (InstanceIfExists B instanceID) (EvInstanceIfExists instanceID) s of
        (Inl err, s1) \<Rightarrow>
          (Return (False, Some (Errorf ''failed to retrieve instance: %+v'' [] (Some err))), s1)
      | (Inr None, s1) \<Rightarrow> (Return (False, None), s1)
      | (Inr (Some instance), s1) \<Rightarrow>
          if State instance = InstanceStateRunning \<or> State instance = InstanceStatePending
          then
            (case reconcileLBAttachment B scope machine instance s1 of
               (Some err, s2) \<Rightarrow> (Return (True, Some err), s2)
             | (None, s2) \<Rightarrow> (Return (True, None), s2))
          else (Return (False, None), s1)))"

definition Exists ::
  "'w Collaborators \<Rightarrow> Cluster \<Rightarrow> Machine \<Rightarrow> 'w \<Rightarrow> (bool \<times> error option) outcome \<times> 'w st"
where
  "Exists B cluster machine w =
     (case call (NewMachineScope B machine cluster) (EvNewMachineScope machine cluster) (w, []) of
        (Inl err, s) \<Rightarrow>
          (Return (False, Some (Errorf ''failed to create scope: %+v'' [] (Some err))), s)
      | (Inr scope, s) \<Rightarrow>
          (case Exists_body B scope machine s of (out, s') \<Rightarrow> (out, close B scope s')))"

subsection \<open>Reading the log\<close>

text \<open>Predicates and projections on events, in which the theorems are stated.\<close>

definition is_TerminateInstance :: "event \<Rightarrow> bool" where
  "is_TerminateInstance ev = (case ev of EvTerminateInstance _ _ \<Rightarrow> True | _ \<Rightarrow> False)"

definition is_Register :: "event \<Rightarrow> bool" where
  "is_Register ev = (case ev of EvRegisterInstanceWithAPIServerELB _ _ \<Rightarrow> True | _ \<Rightarrow> False)"

definition is_CreateOrGetMachine :: "event \<Rightarrow> bool" where
  "is_CreateOrGetMachine ev = (case ev of EvCreateOrGetMachine _ _ _ _ \<Rightarrow> True | _ \<Rightarrow> False)"

definition is_Close :: "event \<Rightarrow> bool" where
  "is_Close ev = (case ev of EvClose _ \<Rightarrow> True | _ \<Rightarrow> False)"

text \<open>An existence check that answered yes.\<close>

definition confirmed :: "event \<Rightarrow> bool" where
  "confirmed ev = (case ev of EvMachineExists _ (Inr True) \<Rightarrow> True | _ \<Rightarrow> False)"

text \<open>A scope construction or an existence check that ended in an error.\<close>

definition failed :: "event \<Rightarrow> bool" where
  "failed ev = (case ev of EvNewMachineScope _ _ (Inl _) \<Rightarrow> True
                         | EvMachineExists _ (Inl _) \<Rightarrow> True | _ \<Rightarrow> False)"

definition is_check :: "event \<Rightarrow> bool" where
  "is_check ev = (case ev of EvNewMachineScope _ _ _ \<Rightarrow> True
                           | EvMachineExists _ _ \<Rightarrow> True | _ \<Rightarrow> False)"

text \<open>
  A step of obtaining the bootstrap token after the kubeconfig is fetched: building the
  client configuration, building the client, issuing the token.
\<close>

definition is_token_step :: "event \<Rightarrow> bool" where
  "is_token_step ev = (case ev of EvBuildConfigFromKubeconfigGetter _ _ _ \<Rightarrow> True
                                | EvNewForConfig _ _ \<Rightarrow> True
                                | EvNewBootstrap _ _ _ \<Rightarrow> True | _ \<Rightarrow> False)"

text \<open>The machines for which a scope was asked, in the order of the log.\<close>

definition scoped :: "event list \<Rightarrow> Machine list" where
  "scoped evs = concat (map (\<lambda>ev. case ev of EvNewMachineScope m _ _ \<Rightarrow> [m] | _ \<Rightarrow> []) evs)"

subsection \<open>Shapes of the log of a run\<close>

text \<open>
  The events that the loop of \<^verbatim>\<open>isNodeJoin\<close> adds, by its result: checks only, of a
  prefix of the candidates in their order; on \<open>True\<close> the confirming check is the last
  event; on \<open>False\<close> every candidate was asked and none confirmed; on an error the
  failing check is the last event.
\<close>

definition loop_shape :: "Machine list \<Rightarrow> error + bool \<Rightarrow> event list \<Rightarrow> bool" where
  "loop_shape cpms r evs \<longleftrightarrow>
     (\<forall>ev\<in>set evs. is_check ev) \<and> prefix (scoped evs) cpms \<and>
     (case r of
        Inr exists \<Rightarrow>
          (\<forall>ev\<in>set evs. \<not> failed ev) \<and>
          (if exists
           then \<exists>pre m. evs = pre @ [EvMachineExists m (Inr True)] \<and>
                  (\<forall>ev\<in>set pre. \<not> confirmed ev)
           else (\<forall>ev\<in>set evs. \<not> confirmed ev) \<and> scoped evs = cpms)
      | Inl err \<Rightarrow>
          \<exists>pre ev. evs = pre @ [ev] \<and> failed ev \<and>
            (\<forall>ev\<in>set pre. \<not> confirmed ev \<and> \<not> failed ev))"

text \<open>The events of a classification that returned a verdict, and of one that failed.\<close>

definition cls_ok :: "Machine \<Rightarrow> Machine list \<Rightarrow> bool \<Rightarrow> event list \<Rightarrow> bool" where
  "cls_ok machine cps join evs \<longleftrightarrow>
     (\<forall>ev\<in>set evs. is_check ev \<and> \<not> failed ev) \<and> prefix (scoped evs) cps \<and>
     (if index (Labels machine) ''set'' = ''node'' then join \<and> evs = []
      else index (Labels machine) ''set'' = ''controlplane'' \<and>
           (if join then \<exists>pre m. evs = pre @ [EvMachineExists m (Inr True)] \<and>
                          (\<forall>ev\<in>set pre. \<not> confirmed ev)
            else (\<forall>ev\<in>set evs. \<not> confirmed ev) \<and> scoped evs = cps))"

definition cls_failed :: "Machine \<Rightarrow> Machine list \<Rightarrow> event list \<Rightarrow> bool" where
  "cls_failed machine cps evs \<longleftrightarrow>
     (\<forall>ev\<in>set evs. is_check ev \<and> \<not> confirmed ev) \<and> prefix (scoped evs) cps \<and>
     index (Labels machine) ''set'' \<noteq> ''node'' \<and>
     (if index (Labels machine) ''set'' = ''controlplane''
      then \<exists>pre ev. evs = pre @ [ev] \<and> failed ev \<and> (\<forall>ev\<in>set pre. \<not> failed ev)
      else evs = [])"

text \<open>The events of the token stage of \<^verbatim>\<open>Create\<close>: when it gave a token, when it failed.\<close>

definition token_ok :: "Cluster \<Rightarrow> string \<Rightarrow> bool \<Rightarrow> string \<Rightarrow> event list \<Rightarrow> bool" where
  "token_ok cluster url join tok evs \<longleftrightarrow>
     (if join
      then \<exists>kc cfg client. evs =
             [EvGetKubeConfig cluster (Inr kc),
              EvBuildConfigFromKubeconfigGetter url kc (Inr cfg),
              EvNewForConfig cfg (Inr client),
              EvNewBootstrap client 600000000000 (Inr tok)]
      else evs = [] \<and> tok = [])"

definition token_failed :: "Cluster \<Rightarrow> string \<Rightarrow> event list \<Rightarrow> bool" where
  "token_failed cluster url evs \<longleftrightarrow>
     (\<exists>e. evs = [EvGetKubeConfig cluster (Inl e)]) \<or>
     (\<exists>kc e. evs = [EvGetKubeConfig cluster (Inr kc),
                    EvBuildConfigFromKubeconfigGetter url kc (Inl e)]) \<or>
     (\<exists>kc cfg e. evs = [EvGetKubeConfig cluster (Inr kc),
                        EvBuildConfigFromKubeconfigGetter url kc (Inr cfg),
                        EvNewForConfig cfg (Inl e)]) \<or>
     (\<exists>kc cfg client e. evs = [EvGetKubeConfig cluster (Inr kc),
                        EvBuildConfigFromKubeconfigGetter url kc (Inr cfg),
                        EvNewForConfig cfg (Inr client),
                        EvNewBootstrap client 600000000000 (Inl e)])"

text \<open>The error \<^verbatim>\<open>Create\<close> returns when the registration with the load balancer fails.\<close>

definition lb_error :: "Instance \<Rightarrow> error \<Rightarrow> error" where
  "lb_error i e = Errorf ''failed to reconcile LB attachment: %+v'' []
     (Some (Wrapf e ''could not register control plane instance %q with load balancer''
        [ID i]))"

definition lb_ok :: "Machine \<Rightarrow> Instance \<Rightarrow> error option outcome \<Rightarrow> event list \<Rightarrow> bool" where
  "lb_ok machine i out evs \<longleftrightarrow>
     (if index (Labels machine) ''set'' = ''controlplane''
      then \<exists>reply. evs = [EvRegisterInstanceWithAPIServerELB (ID i) reply] \<and>
             out = Return (map_option (lb_error i) reply)
      else evs = [] \<and> out = Return None)"

text \<open>The scope after lines 168 and 169 of \<^verbatim>\<open>Create\<close> wrote the instance to its status.\<close>

definition written :: "MachineScope \<Rightarrow> Instance \<Rightarrow> MachineScope" where
  "written scope i = scope\<lparr>MachineStatus :=
     (MachineStatus scope)\<lparr>InstanceID := Some (ID i), InstanceState := Some (State i)\<rparr>\<rparr>"

subsection \<open>The search, one candidate at a time\<close>

text \<open>
  The specification describes the search of \<^verbatim>\<open>isNodeJoin\<close> candidate by candidate: the
  result is a join iff the backing instance of at least one candidate exists, the search
  stops at the first confirmed existence, and it fails when a scope construction or an
  existence check fails. The three definitions below follow these words rather than the
  loop of the source, and the loop is compared with them. \<open>ask\<close> puts the question for one
  candidate to the collaborators, in the world it is given: it builds the scope of the
  candidate and asks \<^verbatim>\<open>MachineExists\<close> for it, and answers with the reply or with the
  error. \<open>asked\<close> is the state after every candidate of a list has been asked in turn.
  \<open>none_exists\<close> says that every candidate of a list, asked in turn, is reported not to
  exist.
\<close>

definition ask :: "'w Collaborators \<Rightarrow> Cluster \<Rightarrow> Machine \<Rightarrow> 'w st \<Rightarrow> (error + bool) \<times> 'w st" where
  "ask B cluster cm s =
     (case NewMachineScope B cm cluster (fst s) of
        (Inl err, w1) \<Rightarrow>
          (Inl (Wrapf err ''failed to create machine scope for machine %q'' [Name cm]),
           w1, snd s @ [EvNewMachineScope cm cluster (Inl err)])
      | (Inr m, w1) \<Rightarrow>
          (case MachineExists B m w1 of
             (Inl err, w2) \<Rightarrow>
               (Inl (Wrapf err ''failed to verify existence of machine %q''
                      [Name (scopeMachine m)]),
                w2, snd s @ [EvNewMachineScope cm cluster (Inr m), EvMachineExists m (Inl err)])
           | (Inr exists, w2) \<Rightarrow>
               (Inr exists,
                w2, snd s @ [EvNewMachineScope cm cluster (Inr m),
                             EvMachineExists m (Inr exists)])))"

fun asked :: "'w Collaborators \<Rightarrow> Cluster \<Rightarrow> Machine list \<Rightarrow> 'w st \<Rightarrow> 'w st" where
  "asked B cluster [] s = s"
| "asked B cluster (cm # rest) s = asked B cluster rest (snd (ask B cluster cm s))"

fun none_exists :: "'w Collaborators \<Rightarrow> Cluster \<Rightarrow> Machine list \<Rightarrow> 'w st \<Rightarrow> bool" where
  "none_exists B cluster [] s = True"
| "none_exists B cluster (cm # rest) s =
     (fst (ask B cluster cm s) = Inr False \<and> none_exists B cluster rest (snd (ask B cluster cm s)))"

subsection \<open>A test double\<close>

text \<open>
  Collaborators for running the verbs on concrete machines. The world is the number of
  calls made so far. What a collaborator answers is read off the names it is given: the
  recorded instance of the machine \<open>n\<close> is \<open>i-n\<close>, unless \<open>n\<close> is \<open>never-provisioned\<close>;
  the instance \<open>i-gone\<close> is absent; the state of an instance is the one its name
  spells, \<open>running\<close> otherwise; the cluster \<open>empty\<close> has no machines; no token is
  issued for the cluster \<open>sealed\<close>.
\<close>

definition demo_machine :: "string \<Rightarrow> string \<Rightarrow> string \<Rightarrow> Machine" where
  "demo_machine name role version =
     \<lparr>Name = name, Namespace = ''default'', Labels = [''set'' \<mapsto> role],
      Annotations = None, ControlPlane = version\<rparr>"

definition demo_cluster :: Cluster where
  "demo_cluster = \<lparr>ClusterName = ''test1''\<rparr>"

definition demo_scope :: "Machine \<Rightarrow> Cluster \<Rightarrow> MachineScope" where
  "demo_scope m c =
     \<lparr>scopeMachine = m, scopeCluster = c,
      MachineConfig = \<lparr>AdditionalSecurityGroups = [], AdditionalTags = []\<rparr>,
      MachineStatus =
        \<lparr>InstanceID = (if Name m = ''never-provisioned'' then None else Some (''i-'' @ Name m)),
         InstanceState = None\<rparr>\<rparr>"

definition demo_state :: "string \<Rightarrow> InstanceState" where
  "demo_state instanceID =
     (if instanceID = ''i-terminated'' then InstanceStateTerminated
      else if instanceID = ''i-shutting-down'' then InstanceStateShuttingDown
      else if instanceID = ''i-pending'' then InstanceStatePending
      else if instanceID = ''i-stopped'' then ''stopped''
      else InstanceStateRunning)"

definition demo_instance :: "string \<Rightarrow> Instance" where
  "demo_instance instanceID =
     \<lparr>ID = instanceID, State = demo_state instanceID, SecurityGroupIDs = []\<rparr>"

definition demo_machines :: "Machine list" where
  "demo_machines =
     [demo_machine ''unversioned'' ''controlplane'' [],
      demo_machine ''never-provisioned'' ''node'' ''1.13.0'',
      demo_machine ''running'' ''controlplane'' ''1.13.0'',
      demo_machine ''lookup-error'' ''controlplane'' ''1.13.0'']"

definition demo :: "nat Collaborators" where
  "demo =
     \<lparr>NewMachineScope = (\<lambda>m c w.
        (if Name m = ''undecodable'' then Inl (External ''failed to get machine config'')
         else Inr (demo_scope m c), Suc w)),
      Close = (\<lambda>scope w. Suc w),
      GetIP = (\<lambda>c w. (Inr (''https://'' @ ClusterName c), Suc w)),
      GetKubeConfig = (\<lambda>c w. (Inr ''kubeconfig'', Suc w)),
      MachineClient_List = (\<lambda>scope w.
        (Inr (if ClusterName (scopeCluster scope) = ''empty'' then [] else demo_machines),
         Suc w)),
      MachineExists = (\<lambda>scope w.
        (case InstanceID (MachineStatus scope) of
           None \<Rightarrow> Inr False
         | Some instanceID \<Rightarrow>
             if instanceID = ''i-lookup-error'' then Inl (External ''RequestLimitExceeded'')
             else Inr (demo_state instanceID = InstanceStateRunning \<or>
                       demo_state instanceID = InstanceStatePending), Suc w)),
      BuildConfigFromKubeconfigGetter = (\<lambda>url kubeConfig w. (Inr url, Suc w)),
      NewForConfig = (\<lambda>clientConfig w. (Inr clientConfig, Suc w)),
      NewBootstrap = (\<lambda>coreClient ttl w.
        (if coreClient = ''https://sealed'' then Inl (External ''forbidden'')
         else Inr ''abcdef.0123456789abcdef'', Suc w)),
      CreateOrGetMachine = (\<lambda>scope token kubeConfig w.
        (if Name (scopeMachine scope) = ''net-not-ready''
         then Inl (Wrapf (External ''FailedDependency'') ''failed to run instance'' [])
         else if Name (scopeMachine scope) = ''over-quota''
         then Inl (External ''InstanceLimitExceeded'')
         else Inr (demo_instance (''i-'' @ Name (scopeMachine scope))), Suc w)),
      InstanceIfExists = (\<lambda>instanceID w.
        (if instanceID = ''i-gone'' then Inr None
         else Inr (Some (demo_instance instanceID)), Suc w)),
      TerminateInstance = (\<lambda>instanceID w.
        (if instanceID = ''i-stopped'' then Some (External ''OperationNotPermitted'') else None,
         Suc w)),
      RegisterInstanceWithAPIServerELB = (\<lambda>instanceID w.
        (if instanceID = ''i-unreachable'' then Some (External ''LoadBalancerNotFound'')
         else None, Suc w)),
      ensureSecurityGroups = (\<lambda>machine instanceID additional existing w. (Inr False, Suc w)),
      ensureTags = (\<lambda>machine instanceID additional w. (Inr False, Suc w)),
      IsFailedDependency = (\<lambda>e. e = External ''FailedDependency''),
      Sprintf = (\<lambda>format args. concat (format # args))\<rparr>"

section \<open>Properties\<close>

subsection \<open>Auxiliary facts\<close>

lemmas demo_defs =
  demo_def demo_scope_def demo_machine_def demo_cluster_def demo_state_def demo_instance_def
  demo_machines_def InstanceStateRunning_def InstanceStatePending_def
  InstanceStateTerminated_def InstanceStateShuttingDown_def index_def

lemmas Create_defs = Create_def Create_body_def isNodeJoin_def getNodeJoinToken_def
  reconcileLBAttachment_def getControlPlaneMachines_def call_def close_def

lemmas observer_defs =
  is_TerminateInstance_def is_Register_def is_CreateOrGetMachine_def is_Close_def
  confirmed_def failed_def is_check_def is_token_step_def

lemma scoped_simps [simp]:
  "scoped [] = []"
  "scoped (evs @ evs') = scoped evs @ scoped evs'"
  "scoped (EvNewMachineScope m c r # evs) = m # scoped evs"
  "scoped (EvMachineExists sc r' # evs) = scoped evs"
  by (simp_all add: scoped_def)

lemma loop_shape_scope_failed:
  "loop_shape (cm # rest) (Inl err) [EvNewMachineScope cm cluster (Inl e)]"
  by (auto simp: loop_shape_def is_check_def failed_def confirmed_def)

lemma loop_shape_exists_failed:
  "loop_shape (cm # rest) (Inl err)
     [EvNewMachineScope cm cluster (Inr m), EvMachineExists m (Inl e)]"
  by (auto simp: loop_shape_def is_check_def failed_def confirmed_def
        intro: exI [of _ "[EvNewMachineScope cm cluster (Inr m)]"])

lemma loop_shape_exists:
  "loop_shape (cm # rest) (Inr True)
     [EvNewMachineScope cm cluster (Inr m), EvMachineExists m (Inr True)]"
  by (auto simp: loop_shape_def is_check_def failed_def confirmed_def
        intro: exI [of _ "[EvNewMachineScope cm cluster (Inr m)]"])

lemma loop_shape_next:
  assumes "loop_shape rest r evs"
  shows "loop_shape (cm # rest) r
           ([EvNewMachineScope cm cluster (Inr m), EvMachineExists m (Inr False)] @ evs)"
proof -
  let ?two = "[EvNewMachineScope cm cluster (Inr m), EvMachineExists m (Inr False)]"
  have clean: "\<forall>ev\<in>set ?two. is_check ev \<and> \<not> failed ev \<and> \<not> confirmed ev"
    by (simp add: failed_def confirmed_def is_check_def)
  show ?thesis
  proof (cases r)
    case (Inl err)
    with assms obtain pre ev where
      "evs = pre @ [ev]" "failed ev" "\<forall>ev\<in>set pre. \<not> confirmed ev \<and> \<not> failed ev"
      by (auto simp: loop_shape_def)
    with assms clean Inl show ?thesis
      unfolding loop_shape_def
      by (auto intro!: exI [of _ "?two @ pre"])
  next
    case (Inr ex)
    show ?thesis
    proof (cases ex)
      case True
      with assms Inr obtain pre m' where
        "evs = pre @ [EvMachineExists m' (Inr True)]" "\<forall>ev\<in>set pre. \<not> confirmed ev"
        by (auto simp: loop_shape_def)
      with assms clean Inr True show ?thesis
        unfolding loop_shape_def
        by (auto intro!: exI [of _ "?two @ pre"])
    next
      case False
      with assms Inr clean show ?thesis
        by (auto simp: loop_shape_def)
    qed
  qed
qed

lemma isNodeJoin_loop_log:
  "isNodeJoin_loop B cluster cpms False s = (r, s') \<Longrightarrow>
     \<exists>evs. snd s' = snd s @ evs \<and> loop_shape cpms r evs"
proof (induction cpms arbitrary: s)
  case Nil
  then show ?case by (auto simp: loop_shape_def)
next
  case (Cons cm rest)
  obtain r1 w1 where scope: "NewMachineScope B cm cluster (fst s) = (r1, w1)"
    by (cases "NewMachineScope B cm cluster (fst s)")
  show ?case
  proof (cases r1)
    case (Inl e)
    with Cons.prems scope obtain err where
      "r = Inl err" "snd s' = snd s @ [EvNewMachineScope cm cluster (Inl e)]"
      by (auto simp: call_def)
    then show ?thesis
      using loop_shape_scope_failed by blast
  next
    case (Inr m)
    note m = this
    obtain r2 w2 where exists: "MachineExists B m w1 = (r2, w2)"
      by (cases "MachineExists B m w1")
    show ?thesis
    proof (cases r2)
      case (Inl e)
      with Cons.prems scope exists m obtain err where
        "r = Inl err"
        "snd s' = snd s @ [EvNewMachineScope cm cluster (Inr m), EvMachineExists m (Inl e)]"
        by (auto simp: call_def)
      then show ?thesis
        using loop_shape_exists_failed by blast
    next
      case (Inr b)
      show ?thesis
      proof (cases b)
        case True
        with Cons.prems scope exists m Inr have
          "r = Inr True"
          "snd s' = snd s @ [EvNewMachineScope cm cluster (Inr m), EvMachineExists m (Inr True)]"
          by (auto simp: call_def)
        then show ?thesis
          using loop_shape_exists by blast
      next
        case False
        let ?two = "[EvNewMachineScope cm cluster (Inr m), EvMachineExists m (Inr False)]"
        from Cons.prems scope exists m Inr False
        have "isNodeJoin_loop B cluster rest False (w2, snd s @ ?two) = (r, s')"
          by (simp add: call_def)
        from Cons.IH [OF this] obtain evs where
          "snd s' = (snd s @ ?two) @ evs" "loop_shape rest r evs"
          by auto
        then have "snd s' = snd s @ (?two @ evs)" "loop_shape (cm # rest) r (?two @ evs)"
          using loop_shape_next by simp_all
        then show ?thesis by blast
      qed
    qed
  qed
qed

lemma failed_not_confirmed: "failed ev \<Longrightarrow> \<not> confirmed ev"
  by (auto simp: failed_def confirmed_def split: event.splits sum.splits)

lemma isNodeJoin_run:
  assumes "isNodeJoin B cps machine cluster s = ((join, err), s')"
  shows "\<exists>evs. snd s' = snd s @ evs \<and>
           (case err of None \<Rightarrow> cls_ok machine cps join evs
                      | Some e \<Rightarrow> cls_failed machine cps evs)"
proof (cases "index (Labels machine) ''set'' = ''controlplane''")
  case False
  with assms have "snd s' = snd s @ []"
    "case err of None \<Rightarrow> cls_ok machine cps join [] | Some e \<Rightarrow> cls_failed machine cps []"
    by (auto simp: isNodeJoin_def cls_ok_def cls_failed_def split: if_splits)
  then show ?thesis by blast
next
  case True
  obtain r s1 where loop: "isNodeJoin_loop B cluster cps False s = (r, s1)"
    by (cases "isNodeJoin_loop B cluster cps False s")
  with assms True have res: "s' = s1" "r = (case err of None \<Rightarrow> Inr join | Some e \<Rightarrow> Inl e)"
    by (auto simp: isNodeJoin_def split: sum.splits)
  from isNodeJoin_loop_log [OF loop] obtain evs where
    evs: "snd s1 = snd s @ evs" "loop_shape cps r evs" by blast
  from evs(2) res(2) True have
    "case err of None \<Rightarrow> cls_ok machine cps join evs | Some e \<Rightarrow> cls_failed machine cps evs"
    by (auto simp: loop_shape_def cls_ok_def cls_failed_def
          split: option.splits if_splits dest: failed_not_confirmed)
  with evs(1) res(1) show ?thesis by blast
qed

lemma getNodeJoinToken_run:
  assumes "getNodeJoinToken B cluster url s = (r, s')"
  shows "\<exists>evs. snd s' = snd s @ evs \<and>
           (case r of Inr tok \<Rightarrow> token_ok cluster url True tok evs
                    | Inl e \<Rightarrow> token_failed cluster url evs)"
  using assms unfolding getNodeJoinToken_def call_def token_ok_def token_failed_def
  by (auto simp: time_Minute_def time_Second_def split: prod.splits sum.splits)

lemma reconcileLBAttachment_run:
  assumes "reconcileLBAttachment B scope m i s = (r, s')"
  shows "\<exists>evs. snd s' = snd s @ evs \<and>
           lb_ok m i (Return (map_option
             (\<lambda>e. Errorf ''failed to reconcile LB attachment: %+v'' [] (Some e)) r)) evs"
proof (cases "index (Labels m) ''set'' = ''controlplane''")
  case False
  with assms have "snd s' = snd s @ []" "r = None"
    by (simp_all add: reconcileLBAttachment_def)
  with False show ?thesis
    by (intro exI [of _ "[]"]) (simp add: lb_ok_def)
next
  case True
  obtain reply w1 where reg: "RegisterInstanceWithAPIServerELB B (ID i) (fst s) = (reply, w1)"
    by (cases "RegisterInstanceWithAPIServerELB B (ID i) (fst s)")
  with assms True have
    "snd s' = snd s @ [EvRegisterInstanceWithAPIServerELB (ID i) reply]"
    "r = map_option (\<lambda>e. Wrapf e
           ''could not register control plane instance %q with load balancer'' [ID i]) reply"
    by (auto simp: reconcileLBAttachment_def call_def split: option.splits)
  with True show ?thesis
    by (intro exI [of _ "[EvRegisterInstanceWithAPIServerELB (ID i) reply]"])
       (cases reply; simp add: lb_ok_def lb_error_def)
qed

lemma Create_run:
  assumes run: "Create B cluster machine w = (out, machine', w', tr)"
  obtains
    (scope_failed) e where
      "tr = [EvNewMachineScope machine cluster (Inl e)]"
      "out = Return (Some (Errorf ''failed to create scope: %+v'' [] (Some e)))"
      "fst (NewMachineScope B machine cluster w) = Inl e"
  | (ip_failed) scope e wl where
      "tr = [EvNewMachineScope machine cluster (Inr scope), EvGetIP cluster (Inl e),
             EvClose scope]"
      "out = Return (Some (Errorf
         ''failed to retrieve controlplane url during machine creation: %+v'' [] (Some e)))"
      "w' = Close B scope wl"
      "fst (NewMachineScope B machine cluster w) = Inr scope"
  | (list_failed) scope url e wl where
      "tr = [EvNewMachineScope machine cluster (Inr scope), EvGetIP cluster (Inr url),
             EvList scope (Inl e), EvClose scope]"
      "out = Return (Some (Wrapf e ''failed to retrieve machines in cluster %q''
         [ClusterName cluster]))"
      "w' = Close B scope wl"
      "fst (NewMachineScope B machine cluster w) = Inr scope"
  | (classify_failed) scope url ms evs e wl where
      "tr = [EvNewMachineScope machine cluster (Inr scope), EvGetIP cluster (Inr url),
             EvList scope (Inr ms)] @ evs @ [EvClose scope]"
      "cls_failed machine (getControlPlaneMachines ms) evs"
      "out = Return (Some (Wrapf e
         ''failed to determine whether machine %q should join cluster %q''
         [Name machine, ClusterName cluster]))"
      "w' = Close B scope wl"
      "fst (NewMachineScope B machine cluster w) = Inr scope"
  | (token_failed) scope url ms evs tevs e wl where
      "tr = [EvNewMachineScope machine cluster (Inr scope), EvGetIP cluster (Inr url),
             EvList scope (Inr ms)] @ evs @ tevs @ [EvClose scope]"
      "cls_ok machine (getControlPlaneMachines ms) True evs"
      "token_failed cluster url tevs"
      "out = Return (Some (Wrapf e ''failed to obtain token for node %q to join cluster %q''
         [Name machine, ClusterName cluster]))"
      "w' = Close B scope wl"
      "fst (NewMachineScope B machine cluster w) = Inr scope"
  | (kubeconfig_failed) scope url ms evs join tok tevs e wl where
      "tr = [EvNewMachineScope machine cluster (Inr scope), EvGetIP cluster (Inr url),
             EvList scope (Inr ms)] @ evs @ tevs @
            [EvGetKubeConfig cluster (Inl e), EvClose scope]"
      "cls_ok machine (getControlPlaneMachines ms) join evs"
      "token_ok cluster url join tok tevs"
      "out = Return (Some (Wrapf e ''failed to retrieve kubeconfig while creating machine %q''
         [Name machine]))"
      "w' = Close B scope wl"
      "fst (NewMachineScope B machine cluster w) = Inr scope"
  | (provision_failed) scope url ms evs join tok tevs kc e wl where
      "tr = [EvNewMachineScope machine cluster (Inr scope), EvGetIP cluster (Inr url),
             EvList scope (Inr ms)] @ evs @ tevs @
            [EvGetKubeConfig cluster (Inr kc), EvCreateOrGetMachine scope tok kc (Inl e),
             EvClose scope]"
      "cls_ok machine (getControlPlaneMachines ms) join evs"
      "token_ok cluster url join tok tevs"
      "out = Return (Some (if IsFailedDependency B (Cause e)
                           then RequeueAfterError 60000000000
                           else Errorf ''failed to create or get machine: %+v'' [] (Some e)))"
      "w' = Close B scope wl"
      "fst (NewMachineScope B machine cluster w) = Inr scope"
  | (provisioned) scope url ms evs join tok tevs kc i levs wl where
      "tr = [EvNewMachineScope machine cluster (Inr scope), EvGetIP cluster (Inr url),
             EvList scope (Inr ms)] @ evs @ tevs @
            [EvGetKubeConfig cluster (Inr kc), EvCreateOrGetMachine scope tok kc (Inr i)] @
            levs @ [EvClose (written scope i)]"
      "cls_ok machine (getControlPlaneMachines ms) join evs"
      "token_ok cluster url join tok tevs"
      "lb_ok machine i out levs"
      "w' = Close B (written scope i) wl"
      "fst (NewMachineScope B machine cluster w) = Inr scope"
proof -
  obtain r0 w0 where scope: "NewMachineScope B machine cluster w = (r0, w0)"
    by (cases "NewMachineScope B machine cluster w")
  show thesis
  proof (cases r0)
    case (Inl e)
    with run scope show thesis
      by (intro scope_failed [of e]) (auto simp: Create_def call_def)
  next
    case (Inr scope')
    note r0 = this
    let ?t0 = "[EvNewMachineScope machine cluster (Inr scope')]"
    obtain r1 w1 where ip: "GetIP B cluster w0 = (r1, w1)"
      by (cases "GetIP B cluster w0")
    show thesis
    proof (cases r1)
      case (Inl e)
      with run scope r0 ip show thesis
        by (intro ip_failed [of scope' e w1])
           (auto simp: Create_def Create_body_def call_def close_def)
    next
      case (Inr url)
      note r1 = this
      obtain r2 w2 where list: "MachineClient_List B scope' w1 = (r2, w2)"
        by (cases "MachineClient_List B scope' w1")
      show thesis
      proof (cases r2)
        case (Inl e)
        with run scope r0 ip r1 list show thesis
          by (intro list_failed [of scope' url e w2])
             (auto simp: Create_def Create_body_def call_def close_def)
      next
        case (Inr ms)
        note r2 = this
        let ?t2 = "[EvNewMachineScope machine cluster (Inr scope'), EvGetIP cluster (Inr url),
                    EvList scope' (Inr ms)]"
        obtain join err w3 t3 where cls:
          "isNodeJoin B (getControlPlaneMachines ms) machine cluster (w2, ?t2)
             = ((join, err), (w3, t3))"
          by (cases "isNodeJoin B (getControlPlaneMachines ms) machine cluster (w2, ?t2)") auto
        from isNodeJoin_run [OF cls] obtain evs where
          t3: "t3 = ?t2 @ evs" and
          shape: "case err of None \<Rightarrow> cls_ok machine (getControlPlaneMachines ms) join evs
                    | Some e \<Rightarrow> cls_failed machine (getControlPlaneMachines ms) evs"
          by auto
        show thesis
        proof (cases err)
          case (Some e)
          from run scope r0 ip r1 list r2 cls Some have
            "out = Return (Some (Wrapf e
               ''failed to determine whether machine %q should join cluster %q''
               [Name machine, ClusterName cluster]))"
            "tr = t3 @ [EvClose scope']" "w' = Close B scope' w3"
            by (auto simp: Create_def Create_body_def call_def close_def)
          with t3 shape Some scope r0 show thesis
            by (intro classify_failed [of scope' url ms evs e w3]) simp_all
        next
          case None
          note err = this
          with shape have ok: "cls_ok machine (getControlPlaneMachines ms) join evs" by simp
          obtain r4 w4 t4 where tok:
            "(if join then getNodeJoinToken B cluster url (w3, t3) else (Inr [], (w3, t3)))
               = (r4, (w4, t4))"
            by (cases "if join then getNodeJoinToken B cluster url (w3, t3) else (Inr [], (w3, t3))")
               auto
          have "\<exists>tevs. t4 = t3 @ tevs \<and>
                  (case r4 of Inr tk \<Rightarrow> token_ok cluster url join tk tevs
                     | Inl e \<Rightarrow> join \<and> token_failed cluster url tevs)"
          proof (cases join)
            case True
            with tok have "getNodeJoinToken B cluster url (w3, t3) = (r4, (w4, t4))" by simp
            from getNodeJoinToken_run [OF this] True show ?thesis
              by (auto split: sum.splits)
          next
            case False
            with tok show ?thesis by (auto simp: token_ok_def)
          qed
          then obtain tevs where t4: "t4 = t3 @ tevs" and
            tshape: "case r4 of Inr tk \<Rightarrow> token_ok cluster url join tk tevs
                       | Inl e \<Rightarrow> join \<and> token_failed cluster url tevs"
            by blast
          show thesis
          proof (cases r4)
            case (Inl e)
            with tshape have j: "join" "token_failed cluster url tevs" by simp_all
            from run scope r0 ip r1 list r2 cls err tok Inl have
              "out = Return (Some (Wrapf e
                 ''failed to obtain token for node %q to join cluster %q''
                 [Name machine, ClusterName cluster]))"
              "tr = t4 @ [EvClose scope']" "w' = Close B scope' w4"
              by (auto simp: Create_def Create_body_def call_def close_def)
            with t3 t4 j ok scope r0 show thesis
              by (intro token_failed [of scope' url ms evs tevs e w4]) simp_all
          next
            case (Inr tk)
            note r4 = this
            with tshape have tok_ok: "token_ok cluster url join tk tevs" by simp
            obtain r5 w5 where kcfg: "GetKubeConfig B cluster w4 = (r5, w5)"
              by (cases "GetKubeConfig B cluster w4")
            show thesis
            proof (cases r5)
              case (Inl e)
              from run scope r0 ip r1 list r2 cls err tok r4 kcfg Inl have
                "out = Return (Some (Wrapf e
                   ''failed to retrieve kubeconfig while creating machine %q'' [Name machine]))"
                "tr = t4 @ [EvGetKubeConfig cluster (Inl e), EvClose scope']"
                "w' = Close B scope' w5"
                by (auto simp: Create_def Create_body_def call_def close_def)
              with t3 t4 ok tok_ok scope r0 show thesis
                by (intro kubeconfig_failed [of scope' url ms evs tevs e join tk w5]) simp_all
            next
              case (Inr kc)
              note r5 = this
              obtain r6 w6 where cog: "CreateOrGetMachine B scope' tk kc w5 = (r6, w6)"
                by (cases "CreateOrGetMachine B scope' tk kc w5")
              show thesis
              proof (cases r6)
                case (Inl e)
                from run scope r0 ip r1 list r2 cls err tok r4 kcfg r5 cog Inl have
                  "out = Return (Some (if IsFailedDependency B (Cause e)
                           then RequeueAfterError 60000000000
                           else Errorf ''failed to create or get machine: %+v'' [] (Some e)))"
                  "tr = t4 @ [EvGetKubeConfig cluster (Inr kc),
                              EvCreateOrGetMachine scope' tk kc (Inl e), EvClose scope']"
                  "w' = Close B scope' w6"
                  by (auto simp: Create_def Create_body_def call_def close_def
                        time_Minute_def time_Second_def split: if_splits)
                with t3 t4 ok tok_ok scope r0 show thesis
                  by (intro provision_failed [of scope' url ms evs tevs kc tk e join w6]) simp_all
              next
                case (Inr i)
                note r6 = this
                let ?t6 = "t4 @ [EvGetKubeConfig cluster (Inr kc),
                                 EvCreateOrGetMachine scope' tk kc (Inr i)]"
                let ?m' = "machine\<lparr>Annotations := Some
                     ((case Annotations machine of None \<Rightarrow> Map.empty | Some a \<Rightarrow> a)
                        (''cluster-api-provider-aws'' \<mapsto> ''true''))\<rparr>"
                obtain r7 w7 t7 where lb:
                  "reconcileLBAttachment B (written scope' i) ?m' i (w6, ?t6) = (r7, (w7, t7))"
                  by (cases "reconcileLBAttachment B (written scope' i) ?m' i (w6, ?t6)") auto
                from reconcileLBAttachment_run [OF lb] obtain levs where
                  t7: "t7 = ?t6 @ levs" and
                  lshape: "lb_ok ?m' i (Return (map_option
                     (\<lambda>e. Errorf ''failed to reconcile LB attachment: %+v'' [] (Some e)) r7)) levs"
                  by auto
                from lshape have lshape': "lb_ok machine i (Return (map_option
                     (\<lambda>e. Errorf ''failed to reconcile LB attachment: %+v'' [] (Some e)) r7)) levs"
                  by (simp add: lb_ok_def)
                from lb have lb': "reconcileLBAttachment B
                    (scope'\<lparr>MachineStatus := (MachineStatus scope')
                        \<lparr>InstanceID := Some (ID i), InstanceState := Some (State i)\<rparr>\<rparr>)
                    ?m' i (w6, ?t6) = (r7, (w7, t7))"
                  by (simp add: written_def)
                from run scope r0 ip r1 list r2 cls err tok r4 kcfg r5 cog r6 lb'
                have res: "out = Return (map_option
                     (\<lambda>e. Errorf ''failed to reconcile LB attachment: %+v'' [] (Some e)) r7)"
                  "tr = t7 @ [EvClose (written scope' i)]"
                  "w' = Close B (written scope' i) w7"
                  by (auto simp: Create_def Create_body_def call_def close_def written_def
                        Let_def split: option.splits)
                with t3 t4 t7 ok tok_ok lshape' scope r0 show thesis
                  by (intro provisioned [of scope' url ms evs tevs kc tk i levs join w7]) simp_all
              qed
            qed
          qed
        qed
      qed
    qed
  qed
qed

lemma check_events:
  "is_check ev \<Longrightarrow> \<not> is_CreateOrGetMachine ev \<and> \<not> is_Close ev \<and> \<not> is_token_step ev \<and>
     \<not> is_Register ev"
  by (cases ev) (simp_all add: observer_defs)

lemma cls_ok_events:
  "cls_ok machine cps join evs \<Longrightarrow> ev \<in> set evs \<Longrightarrow> is_check ev \<and> \<not> failed ev"
  by (simp add: cls_ok_def)

lemma cls_failed_events:
  "cls_failed machine cps evs \<Longrightarrow> ev \<in> set evs \<Longrightarrow> is_check ev \<and> \<not> confirmed ev"
  by (simp add: cls_failed_def)

lemma token_ok_events:
  "token_ok cluster url join tok tevs \<Longrightarrow> ev \<in> set tevs \<Longrightarrow>
     \<not> is_check ev \<and> \<not> is_CreateOrGetMachine ev \<and> \<not> is_Close ev \<and> \<not> is_Register ev"
  by (auto simp: token_ok_def observer_defs split: if_splits)

lemma token_failed_events:
  "token_failed cluster url tevs \<Longrightarrow> ev \<in> set tevs \<Longrightarrow>
     \<not> is_check ev \<and> \<not> is_CreateOrGetMachine ev \<and> \<not> is_Close ev \<and> \<not> is_Register ev"
  by (auto simp: token_failed_def observer_defs)

lemma lb_ok_events:
  "lb_ok machine i out levs \<Longrightarrow> ev \<in> set levs \<Longrightarrow>
     is_Register ev \<and> \<not> is_check ev \<and> \<not> is_CreateOrGetMachine ev \<and> \<not> is_Close ev \<and>
     \<not> is_token_step ev"
  by (auto simp: lb_ok_def observer_defs split: if_splits)

lemma Create_closes:
  assumes run: "Create B cluster machine w = (out, machine', w', tr)"
      and scope: "NewMachineScope B machine cluster w = (Inr scope, w1)"
  shows "\<exists>pre w0 scope'. tr = pre @ [EvClose scope'] \<and> filter is_Close pre = [] \<and>
           w' = Close B scope' w0 \<and>
           (\<forall>sc tok kc i. EvCreateOrGetMachine sc tok kc (Inr i) \<in> set tr \<longrightarrow>
              scope' = scope\<lparr>MachineStatus := (MachineStatus scope)
                         \<lparr>InstanceID := Some (ID i), InstanceState := Some (State i)\<rparr>\<rparr>) \<and>
           ((\<forall>sc tok kc i. EvCreateOrGetMachine sc tok kc (Inr i) \<notin> set tr) \<longrightarrow>
              scope' = scope)"
proof -
  have cog: "is_CreateOrGetMachine (EvCreateOrGetMachine sc tok kc r)" for sc tok kc r
    by (simp add: is_CreateOrGetMachine_def)
  from run show ?thesis
  proof (cases rule: Create_run)
    case (scope_failed e)
    with scope show ?thesis by simp
  next
    case (ip_failed sc e wl)
    with scope show ?thesis
      by (intro exI [of _ "[EvNewMachineScope machine cluster (Inr sc), EvGetIP cluster (Inl e)]"]
            exI [of _ wl] exI [of _ sc]) (simp add: is_Close_def)
  next
    case (list_failed sc url e wl)
    with scope show ?thesis
      by (intro exI [of _ "[EvNewMachineScope machine cluster (Inr sc), EvGetIP cluster (Inr url),
             EvList sc (Inl e)]"] exI [of _ wl] exI [of _ sc]) (simp add: is_Close_def)
  next
    case (classify_failed sc url ms evs e wl)
    have mid: "\<forall>ev\<in>set (evs). \<not> is_Close ev \<and> \<not> is_CreateOrGetMachine ev"
      using cls_failed_events [OF classify_failed(2)] check_events by blast
    have nc: "filter is_Close (evs) = []"
      using mid by (simp only: filter_empty_conv) blast
    have ng: "EvCreateOrGetMachine sc' tok' kc' r' \<notin> set (evs)" for sc' tok' kc' r'
      using mid cog by blast
    with classify_failed scope nc ng show ?thesis
      by (intro exI [of _ "[EvNewMachineScope machine cluster (Inr sc), EvGetIP cluster (Inr url),
             EvList sc (Inr ms)] @ evs"] exI [of _ wl] exI [of _ sc])
         (auto simp: is_Close_def)
  next
    case (token_failed sc url ms evs tevs e wl)
    have mid: "\<forall>ev\<in>set (evs @ tevs). \<not> is_Close ev \<and> \<not> is_CreateOrGetMachine ev"
      using cls_ok_events [OF token_failed(2)] check_events
        token_failed_events [OF token_failed(3)] by auto
    have nc: "filter is_Close (evs @ tevs) = []"
      using mid by (simp only: filter_empty_conv) blast
    have ng: "EvCreateOrGetMachine sc' tok' kc' r' \<notin> set (evs @ tevs)" for sc' tok' kc' r'
      using mid cog by blast
    with token_failed scope nc ng show ?thesis
      by (intro exI [of _ "[EvNewMachineScope machine cluster (Inr sc), EvGetIP cluster (Inr url),
             EvList sc (Inr ms)] @ evs @ tevs"] exI [of _ wl] exI [of _ sc])
         (auto simp: is_Close_def)
  next
    case (kubeconfig_failed sc url ms evs join tok tevs e wl)
    have mid: "\<forall>ev\<in>set (evs @ tevs). \<not> is_Close ev \<and> \<not> is_CreateOrGetMachine ev"
      using cls_ok_events [OF kubeconfig_failed(2)] check_events
        token_ok_events [OF kubeconfig_failed(3)] by auto
    have nc: "filter is_Close (evs @ tevs) = []"
      using mid by (simp only: filter_empty_conv) blast
    have ng: "EvCreateOrGetMachine sc' tok' kc' r' \<notin> set (evs @ tevs)" for sc' tok' kc' r'
      using mid cog by blast
    with kubeconfig_failed scope nc ng show ?thesis
      by (intro exI [of _ "[EvNewMachineScope machine cluster (Inr sc), EvGetIP cluster (Inr url),
             EvList sc (Inr ms)] @ evs @ tevs @ [EvGetKubeConfig cluster (Inl e)]"]
             exI [of _ wl] exI [of _ sc])
         (auto simp: is_Close_def)
  next
    case (provision_failed sc url ms evs join tok tevs kc e wl)
    have mid: "\<forall>ev\<in>set (evs @ tevs). \<not> is_Close ev \<and> \<not> is_CreateOrGetMachine ev"
      using cls_ok_events [OF provision_failed(2)] check_events
        token_ok_events [OF provision_failed(3)] by auto
    have nc: "filter is_Close (evs @ tevs) = []"
      using mid by (simp only: filter_empty_conv) blast
    have ng: "EvCreateOrGetMachine sc' tok' kc' r' \<notin> set (evs @ tevs)" for sc' tok' kc' r'
      using mid cog by blast
    with provision_failed scope nc ng show ?thesis
      by (intro exI [of _ "[EvNewMachineScope machine cluster (Inr sc), EvGetIP cluster (Inr url),
             EvList sc (Inr ms)] @ evs @ tevs @ [EvGetKubeConfig cluster (Inr kc),
             EvCreateOrGetMachine sc tok kc (Inl e)]"] exI [of _ wl] exI [of _ sc])
         (auto simp: is_Close_def)
  next
    case (provisioned sc url ms evs join tok tevs kc i levs wl)
    have mid: "\<forall>ev\<in>set (evs @ tevs @ levs). \<not> is_Close ev \<and> \<not> is_CreateOrGetMachine ev"
      using cls_ok_events [OF provisioned(2)] check_events
        token_ok_events [OF provisioned(3)] lb_ok_events [OF provisioned(4)] by auto
    have nc: "filter is_Close (evs @ tevs @ levs) = []"
      using mid by (simp only: filter_empty_conv) blast
    have ng: "EvCreateOrGetMachine sc' tok' kc' r' \<notin> set (evs @ tevs @ levs)" for sc' tok' kc' r'
      using mid cog by blast
    with provisioned scope nc ng show ?thesis
      by (intro exI [of _ "[EvNewMachineScope machine cluster (Inr sc), EvGetIP cluster (Inr url),
             EvList sc (Inr ms)] @ evs @ tevs @ [EvGetKubeConfig cluster (Inr kc),
             EvCreateOrGetMachine sc tok kc (Inr i)] @ levs"]
             exI [of _ wl] exI [of _ "written sc i"])
         (auto simp: is_Close_def written_def)
  qed
qed

lemma Delete_closes:
  assumes run: "Delete B cluster machine w = (out, w', tr)"
      and scope: "NewMachineScope B machine cluster w = (Inr scope, w1)"
  shows "\<exists>pre w0. tr = pre @ [EvClose scope] \<and> filter is_Close pre = [] \<and>
           w' = Close B scope w0"
  using run scope unfolding Delete_def Delete_body_def call_def close_def
  by (auto simp: is_Close_def split: prod.splits sum.splits option.splits if_splits)

lemma Update_closes:
  assumes run: "Update B cluster machine w = (out, w', tr)"
      and scope: "NewMachineScope B machine cluster w = (Inr scope, w1)"
  shows "\<exists>pre w0. tr = pre @ [EvClose scope] \<and> filter is_Close pre = [] \<and>
           w' = Close B scope w0"
  using run scope unfolding Update_def Update_body_def call_def close_def
  by (auto simp: is_Close_def split: prod.splits sum.splits option.splits if_splits)

lemma Exists_closes:
  assumes run: "Exists B cluster machine w = (out, w', tr)"
      and scope: "NewMachineScope B machine cluster w = (Inr scope, w1)"
  shows "\<exists>pre w0. tr = pre @ [EvClose scope] \<and> filter is_Close pre = [] \<and>
           w' = Close B scope w0"
  using run scope
  unfolding Exists_def Exists_body_def call_def close_def reconcileLBAttachment_def
  by (auto simp: is_Close_def split: prod.splits sum.splits option.splits if_splits)

lemma getControlPlaneMachines_foldl:
  "foldl (\<lambda>cpm m. if ControlPlane m \<noteq> [] then cpm @ [m] else cpm) acc items =
     acc @ filter (\<lambda>m. ControlPlane m \<noteq> []) items"
  by (induction items arbitrary: acc) simp_all

lemma getControlPlaneMachines_filter:
  "getControlPlaneMachines items = filter (\<lambda>m. ControlPlane m \<noteq> []) items"
  by (simp add: getControlPlaneMachines_def getControlPlaneMachines_foldl)

lemma scoped_Cons:
  "scoped (ev # evs) = (case ev of EvNewMachineScope m _ _ \<Rightarrow> [m] | _ \<Rightarrow> []) @ scoped evs"
  by (simp add: scoped_def)

lemma scoped_other: "\<forall>ev\<in>set evs. \<not> is_check ev \<Longrightarrow> scoped evs = []"
  by (induction evs) (auto simp: scoped_Cons is_check_def split: event.splits)

lemma no_list_events:
  "token_ok cluster url join tok tevs \<Longrightarrow> EvList sc r \<notin> set tevs"
  "token_failed cluster url tevs \<Longrightarrow> EvList sc r \<notin> set tevs"
  "lb_ok machine i out levs \<Longrightarrow> EvList sc r \<notin> set levs"
  by (auto simp: token_ok_def token_failed_def lb_ok_def split: if_splits)

lemma no_list_checks:
  "cls_ok machine cps join evs \<Longrightarrow> EvList sc r \<notin> set evs"
  "cls_failed machine cps evs \<Longrightarrow> EvList sc r \<notin> set evs"
  by (auto simp: cls_ok_def cls_failed_def is_check_def)

lemma Create_search:
  assumes run: "Create B cluster machine w = (out, machine', w', tr)"
      and listed: "EvList scope (Inr clusterMachines) \<in> set tr"
  shows "\<exists>evs post url. tl tr = [EvGetIP cluster (Inr url),
              EvList scope (Inr clusterMachines)] @ evs @ post \<and>
           (\<forall>ev\<in>set post. \<not> is_check ev) \<and>
           ((\<exists>join. cls_ok machine (getControlPlaneMachines clusterMachines) join evs) \<or>
            cls_failed machine (getControlPlaneMachines clusterMachines) evs)"
  using run
proof (cases rule: Create_run)
  case (scope_failed e)
  with listed show ?thesis by simp
next
  case (ip_failed sc e wl)
  with listed show ?thesis by simp
next
  case (list_failed sc url e wl)
  with listed show ?thesis by simp
next
  case (classify_failed sc url ms evs e wl)
  from listed classify_failed(1) no_list_checks(2) [OF classify_failed(2)]
  have same: "sc = scope" "ms = clusterMachines"
    by auto
  with classify_failed show ?thesis
    by (intro exI [of _ evs] exI [of _ "[EvClose sc]"] exI [of _ url])
       (simp add: is_check_def)
next
  case (token_failed sc url ms evs tevs e wl)
  from listed token_failed(1) no_list_checks(1) [OF token_failed(2)]
    no_list_events(2) [OF token_failed(3)]
  have same: "sc = scope" "ms = clusterMachines"
    by auto
  have "\<forall>ev\<in>set (tevs @ [EvClose sc]). \<not> is_check ev"
    using token_failed_events [OF token_failed(3)] by (auto simp: is_check_def)
  with token_failed same show ?thesis
    by (intro exI [of _ evs] exI [of _ "tevs @ [EvClose sc]"] exI [of _ url]) auto
next
  case (kubeconfig_failed sc url ms evs join tok tevs e wl)
  from listed kubeconfig_failed(1) no_list_checks(1) [OF kubeconfig_failed(2)]
    no_list_events(1) [OF kubeconfig_failed(3)]
  have same: "sc = scope" "ms = clusterMachines"
    by auto
  have "\<forall>ev\<in>set (tevs @ [EvGetKubeConfig cluster (Inl e), EvClose sc]). \<not> is_check ev"
    using token_ok_events [OF kubeconfig_failed(3)] by (auto simp: is_check_def)
  with kubeconfig_failed same show ?thesis
    by (intro exI [of _ evs]
          exI [of _ "tevs @ [EvGetKubeConfig cluster (Inl e), EvClose sc]"] exI [of _ url])
       auto
next
  case (provision_failed sc url ms evs join tok tevs kc e wl)
  from listed provision_failed(1) no_list_checks(1) [OF provision_failed(2)]
    no_list_events(1) [OF provision_failed(3)]
  have same: "sc = scope" "ms = clusterMachines"
    by auto
  have "\<forall>ev\<in>set (tevs @ [EvGetKubeConfig cluster (Inr kc),
           EvCreateOrGetMachine sc tok kc (Inl e), EvClose sc]). \<not> is_check ev"
    using token_ok_events [OF provision_failed(3)] by (auto simp: is_check_def)
  with provision_failed same show ?thesis
    by (intro exI [of _ evs]
          exI [of _ "tevs @ [EvGetKubeConfig cluster (Inr kc),
             EvCreateOrGetMachine sc tok kc (Inl e), EvClose sc]"] exI [of _ url])
       auto
next
  case (provisioned sc url ms evs join tok tevs kc i levs wl)
  from listed provisioned(1) no_list_checks(1) [OF provisioned(2)]
    no_list_events(1) [OF provisioned(3)] no_list_events(3) [OF provisioned(4)]
  have same: "sc = scope" "ms = clusterMachines"
    by auto
  have "\<forall>ev\<in>set (tevs @ [EvGetKubeConfig cluster (Inr kc),
           EvCreateOrGetMachine sc tok kc (Inr i)] @ levs @ [EvClose (written sc i)]).
          \<not> is_check ev"
    using token_ok_events [OF provisioned(3)] lb_ok_events [OF provisioned(4)]
    by (auto simp: is_check_def)
  with provisioned same show ?thesis
    by (intro exI [of _ evs]
          exI [of _ "tevs @ [EvGetKubeConfig cluster (Inr kc),
             EvCreateOrGetMachine sc tok kc (Inr i)] @ levs @ [EvClose (written sc i)]"]
          exI [of _ url])
       auto
qed

lemmas verb_defs = call_def close_def reconcileLBAttachment_def StringValue_def

lemma loop_step:
  "isNodeJoin_loop B cluster (cm # rest) b s =
     (case ask B cluster cm s of
        (Inl e, s1) \<Rightarrow> (Inl e, s1)
      | (Inr exists, s1) \<Rightarrow>
          if exists then (Inr True, s1) else isNodeJoin_loop B cluster rest False s1)"
  by (auto simp: ask_def call_def split: prod.splits sum.splits)

lemma asked_append: "asked B cluster (xs @ ys) s = asked B cluster ys (asked B cluster xs s)"
  by (induction xs arbitrary: s) simp_all

lemma loop_skip:
  "none_exists B cluster pre s \<Longrightarrow>
     isNodeJoin_loop B cluster (pre @ rest) False s =
       isNodeJoin_loop B cluster rest False (asked B cluster pre s)"
proof (induction pre arbitrary: s)
  case Nil
  then show ?case by simp
next
  case (Cons cm pre)
  obtain a s1 where a: "ask B cluster cm s = (a, s1)" by (cases "ask B cluster cm s")
  with Cons.prems have "a = Inr False" "none_exists B cluster pre s1" by simp_all
  with Cons.IH [of s1] a show ?case
    by (simp add: loop_step del: isNodeJoin_loop.simps)
qed

lemma loop_decide:
  assumes "fst (ask B cluster cm s) \<noteq> Inr False"
  shows "isNodeJoin_loop B cluster (cm # post) b s = ask B cluster cm s"
proof -
  obtain a s1 where a: "ask B cluster cm s = (a, s1)" by (cases "ask B cluster cm s")
  with assms show ?thesis
    by (cases a) (auto simp: loop_step simp del: isNodeJoin_loop.simps)
qed

lemma loop_none:
  "none_exists B cluster cpms s \<Longrightarrow>
     isNodeJoin_loop B cluster cpms False s = (Inr False, asked B cluster cpms s)"
  using loop_skip [of B cluster cpms s "[]"] by simp

lemma loop_first:
  assumes "cpms = pre @ cm # post" "none_exists B cluster pre s"
      and "fst (ask B cluster cm (asked B cluster pre s)) \<noteq> Inr False"
  shows "isNodeJoin_loop B cluster cpms False s =
           (fst (ask B cluster cm (asked B cluster pre s)), asked B cluster (pre @ [cm]) s)"
  using assms loop_skip [of B cluster pre s "cm # post"]
    loop_decide [of B cluster cm "asked B cluster pre s" post False]
  by (simp add: asked_append del: isNodeJoin_loop.simps)

lemma first_decisive:
  "\<not> none_exists B cluster cpms s \<Longrightarrow>
     \<exists>pre cm post. cpms = pre @ cm # post \<and> none_exists B cluster pre s \<and>
       fst (ask B cluster cm (asked B cluster pre s)) \<noteq> Inr False"
proof (induction cpms arbitrary: s)
  case Nil
  then show ?case by simp
next
  case (Cons cm rest)
  show ?case
  proof (cases "fst (ask B cluster cm s) = Inr False")
    case False
    then show ?thesis
      by (intro exI [of _ "[]"] exI [of _ cm] exI [of _ rest]) simp
  next
    case True
    with Cons.prems have "\<not> none_exists B cluster rest (snd (ask B cluster cm s))" by simp
    from Cons.IH [OF this] obtain pre c post where
      "rest = pre @ c # post" "none_exists B cluster pre (snd (ask B cluster cm s))"
      "fst (ask B cluster c (asked B cluster pre (snd (ask B cluster cm s)))) \<noteq> Inr False"
      by blast
    with True show ?thesis
      by (intro exI [of _ "cm # pre"] exI [of _ c] exI [of _ post]) simp
  qed
qed

lemma search_result:
  assumes cls: "isNodeJoin B cpms newMachine cluster s = ((join, err), s')"
      and cp: "index (Labels newMachine) ''set'' = ''controlplane''"
  shows "(join \<longleftrightarrow> (\<exists>pre cm post. cpms = pre @ cm # post \<and> none_exists B cluster pre s \<and>
                     fst (ask B cluster cm (asked B cluster pre s)) = Inr True)) \<and>
         (\<forall>e. err = Some e \<longleftrightarrow>
                 (\<exists>pre cm post. cpms = pre @ cm # post \<and> none_exists B cluster pre s \<and>
                     fst (ask B cluster cm (asked B cluster pre s)) = Inl e)) \<and>
         (none_exists B cluster cpms s \<longleftrightarrow> \<not> join \<and> err = None) \<and>
         (err \<noteq> None \<longrightarrow> \<not> join) \<and>
         (if none_exists B cluster cpms s then s' = asked B cluster cpms s
          else \<exists>pre cm post. cpms = pre @ cm # post \<and> none_exists B cluster pre s \<and>
                 fst (ask B cluster cm (asked B cluster pre s)) \<noteq> Inr False \<and>
                 s' = asked B cluster (pre @ [cm]) s)"
proof -
  obtain r s1 where loop: "isNodeJoin_loop B cluster cpms False s = (r, s1)"
    by (cases "isNodeJoin_loop B cluster cpms False s")
  with cls cp have res: "s' = s1" "r = (case err of None \<Rightarrow> Inr join | Some e \<Rightarrow> Inl e)"
    and excl: "err \<noteq> None \<longrightarrow> \<not> join"
    by (auto simp: isNodeJoin_def split: sum.splits)
  have first: "r = fst (ask B cluster cm (asked B cluster pre s)) \<and>
               s1 = asked B cluster (pre @ [cm]) s"
    if "cpms = pre @ cm # post" "none_exists B cluster pre s"
       "fst (ask B cluster cm (asked B cluster pre s)) \<noteq> Inr False" for pre cm post
    using loop_first [OF that] loop by simp
  have none: "r = Inr False \<and> s1 = asked B cluster cpms s" if "none_exists B cluster cpms s"
    using loop_none [OF that] loop by simp
  show ?thesis
  proof (cases "none_exists B cluster cpms s")
    case True
    from none [OF True] res have verdict: "\<not> join" "err = None" and state: "s' = asked B cluster cpms s"
      by (auto split: option.splits)
    have no_true: "\<not> (\<exists>pre cm post. cpms = pre @ cm # post \<and> none_exists B cluster pre s \<and>
                     fst (ask B cluster cm (asked B cluster pre s)) = Inr True)"
    proof
      assume "\<exists>pre cm post. cpms = pre @ cm # post \<and> none_exists B cluster pre s \<and>
                     fst (ask B cluster cm (asked B cluster pre s)) = Inr True"
      then obtain pre cm post where d: "cpms = pre @ cm # post" "none_exists B cluster pre s"
        "fst (ask B cluster cm (asked B cluster pre s)) = Inr True" by blast
      from first [OF d(1,2)] d(3) none [OF True] show False by simp
    qed
    have no_err: "\<not> (\<exists>pre cm post. cpms = pre @ cm # post \<and> none_exists B cluster pre s \<and>
                     fst (ask B cluster cm (asked B cluster pre s)) = Inl e)" for e
    proof
      assume "\<exists>pre cm post. cpms = pre @ cm # post \<and> none_exists B cluster pre s \<and>
                     fst (ask B cluster cm (asked B cluster pre s)) = Inl e"
      then obtain pre cm post where d: "cpms = pre @ cm # post" "none_exists B cluster pre s"
        "fst (ask B cluster cm (asked B cluster pre s)) = Inl e" by blast
      from first [OF d(1,2)] d(3) none [OF True] show False by simp
    qed
    from True verdict state no_true no_err show ?thesis by simp
  next
    case False
    from first_decisive [OF False] obtain pre cm post where
      d: "cpms = pre @ cm # post" "none_exists B cluster pre s"
         "fst (ask B cluster cm (asked B cluster pre s)) \<noteq> Inr False"
      by blast
    from first [OF d] have r: "r = fst (ask B cluster cm (asked B cluster pre s))"
      and s1: "s1 = asked B cluster (pre @ [cm]) s" by simp_all
    have decided: "\<not> (\<not> join \<and> err = None)"
      using r d(3) res(2) by (cases join) (auto split: option.splits)
    have 1: "join \<longleftrightarrow> (\<exists>pre cm post. cpms = pre @ cm # post \<and> none_exists B cluster pre s \<and>
                     fst (ask B cluster cm (asked B cluster pre s)) = Inr True)"
    proof
      assume join
      with excl res(2) have "r = Inr True" by (auto split: option.splits)
      with r d(1,2) show "\<exists>pre cm post. cpms = pre @ cm # post \<and> none_exists B cluster pre s \<and>
                     fst (ask B cluster cm (asked B cluster pre s)) = Inr True"
        by metis
    next
      assume "\<exists>pre cm post. cpms = pre @ cm # post \<and> none_exists B cluster pre s \<and>
                     fst (ask B cluster cm (asked B cluster pre s)) = Inr True"
      then obtain pre' cm' post' where d': "cpms = pre' @ cm' # post'"
        "none_exists B cluster pre' s"
        "fst (ask B cluster cm' (asked B cluster pre' s)) = Inr True" by blast
      from first [OF d'(1,2)] d'(3) have "r = Inr True" by simp
      with res(2) show join by (auto split: option.splits)
    qed
    have 2: "err = Some e \<longleftrightarrow>
                 (\<exists>pre cm post. cpms = pre @ cm # post \<and> none_exists B cluster pre s \<and>
                     fst (ask B cluster cm (asked B cluster pre s)) = Inl e)" for e
    proof
      assume "err = Some e"
      with res(2) have "r = Inl e" by simp
      with r d(1,2) show "\<exists>pre cm post. cpms = pre @ cm # post \<and> none_exists B cluster pre s \<and>
                     fst (ask B cluster cm (asked B cluster pre s)) = Inl e"
        by metis
    next
      assume "\<exists>pre cm post. cpms = pre @ cm # post \<and> none_exists B cluster pre s \<and>
                     fst (ask B cluster cm (asked B cluster pre s)) = Inl e"
      then obtain pre' cm' post' where d': "cpms = pre' @ cm' # post'"
        "none_exists B cluster pre' s"
        "fst (ask B cluster cm' (asked B cluster pre' s)) = Inl e" by blast
      from first [OF d'(1,2)] d'(3) have "r = Inl e" by simp
      with res(2) show "err = Some e" by (auto split: option.splits)
    qed
    have 5: "\<exists>pre cm post. cpms = pre @ cm # post \<and> none_exists B cluster pre s \<and>
                 fst (ask B cluster cm (asked B cluster pre s)) \<noteq> Inr False \<and>
                 s' = asked B cluster (pre @ [cm]) s"
      using d s1 res(1) by blast
    from False decided excl 1 2 5 show ?thesis by simp
  qed
qed

lemma Create_classification_failed:
  assumes scope: "NewMachineScope B machine cluster w = (Inr scope, w1)"
      and ip: "GetIP B cluster w1 = (Inr url, w2)"
      and list: "MachineClient_List B scope w2 = (Inr ms, w3)"
      and cls: "isNodeJoin B (getControlPlaneMachines ms) machine cluster
                  (w3, [EvNewMachineScope machine cluster (Inr scope),
                        EvGetIP cluster (Inr url), EvList scope (Inr ms)])
                = ((join, Some e), w4, tr4)"
  shows "Create B cluster machine w =
           (Return (Some (Wrapf e
              ''failed to determine whether machine %q should join cluster %q''
              [Name machine, ClusterName cluster])),
            machine, Close B scope w4, tr4 @ [EvClose scope]) \<and>
         filter is_CreateOrGetMachine (tr4 @ [EvClose scope]) = []"
proof -
  from isNodeJoin_run [OF cls] obtain evs where
    tr4: "tr4 = [EvNewMachineScope machine cluster (Inr scope),
                 EvGetIP cluster (Inr url), EvList scope (Inr ms)] @ evs"
    and failed: "cls_failed machine (getControlPlaneMachines ms) evs"
    by auto
  have "\<forall>ev\<in>set evs. \<not> is_CreateOrGetMachine ev"
    using cls_failed_events [OF failed] check_events by blast
  then have "filter is_CreateOrGetMachine (tr4 @ [EvClose scope]) = []"
    unfolding tr4 by (simp add: is_CreateOrGetMachine_def)
  moreover from scope ip list cls have "Create B cluster machine w =
           (Return (Some (Wrapf e
              ''failed to determine whether machine %q should join cluster %q''
              [Name machine, ClusterName cluster])),
            machine, Close B scope w4, tr4 @ [EvClose scope])"
    by (simp add: Create_def Create_body_def call_def close_def)
  ultimately show ?thesis by simp
qed

lemma getNodeJoinToken_steps:
  "(\<forall>e w1. GetKubeConfig B cluster w0 = (Inl e, w1) \<longrightarrow>
      getNodeJoinToken B cluster url (w0, tr0) =
        (Inl (Wrapf e ''failed to retrieve kubeconfig for cluster %q.'' [ClusterName cluster]),
         w1, tr0 @ [EvGetKubeConfig cluster (Inl e)])) \<and>
   (\<forall>kc w1 e w2. GetKubeConfig B cluster w0 = (Inr kc, w1) \<and>
      BuildConfigFromKubeconfigGetter B url kc w1 = (Inl e, w2) \<longrightarrow>
      getNodeJoinToken B cluster url (w0, tr0) =
        (Inl (Wrapf e ''failed to get client config for cluster at %q'' [url]),
         w2, tr0 @ [EvGetKubeConfig cluster (Inr kc),
                    EvBuildConfigFromKubeconfigGetter url kc (Inl e)])) \<and>
   (\<forall>kc w1 cfg w2 e w3. GetKubeConfig B cluster w0 = (Inr kc, w1) \<and>
      BuildConfigFromKubeconfigGetter B url kc w1 = (Inr cfg, w2) \<and>
      NewForConfig B cfg w2 = (Inl e, w3) \<longrightarrow>
      getNodeJoinToken B cluster url (w0, tr0) =
        (Inl (Wrapf e ''failed to initialize new corev1 client'' []),
         w3, tr0 @ [EvGetKubeConfig cluster (Inr kc),
                    EvBuildConfigFromKubeconfigGetter url kc (Inr cfg),
                    EvNewForConfig cfg (Inl e)])) \<and>
   (\<forall>kc w1 cfg w2 client w3. GetKubeConfig B cluster w0 = (Inr kc, w1) \<and>
      BuildConfigFromKubeconfigGetter B url kc w1 = (Inr cfg, w2) \<and>
      NewForConfig B cfg w2 = (Inr client, w3) \<longrightarrow>
      getNodeJoinToken B cluster url (w0, tr0) =
        (map_sum (\<lambda>e. Wrapf e ''failed to create new bootstrap token'' []) id
           (fst (NewBootstrap B client (10 * time_Minute) w3)),
         snd (NewBootstrap B client (10 * time_Minute) w3),
         tr0 @ [EvGetKubeConfig cluster (Inr kc),
                EvBuildConfigFromKubeconfigGetter url kc (Inr cfg),
                EvNewForConfig cfg (Inr client),
                EvNewBootstrap client (10 * time_Minute)
                  (fst (NewBootstrap B client (10 * time_Minute) w3))]))"
proof -
  have last: "getNodeJoinToken B cluster url (w0, tr0) =
        (map_sum (\<lambda>e. Wrapf e ''failed to create new bootstrap token'' []) id
           (fst (NewBootstrap B client (10 * time_Minute) w3)),
         snd (NewBootstrap B client (10 * time_Minute) w3),
         tr0 @ [EvGetKubeConfig cluster (Inr kc),
                EvBuildConfigFromKubeconfigGetter url kc (Inr cfg),
                EvNewForConfig cfg (Inr client),
                EvNewBootstrap client (10 * time_Minute)
                  (fst (NewBootstrap B client (10 * time_Minute) w3))])"
    if "GetKubeConfig B cluster w0 = (Inr kc, w1)"
       "BuildConfigFromKubeconfigGetter B url kc w1 = (Inr cfg, w2)"
       "NewForConfig B cfg w2 = (Inr client, w3)" for kc w1 cfg w2 client w3
  proof -
    obtain r w4 where nb: "NewBootstrap B client (10 * time_Minute) w3 = (r, w4)"
      by (cases "NewBootstrap B client (10 * time_Minute) w3")
    with that show ?thesis
      by (cases r) (simp_all add: getNodeJoinToken_def call_def)
  qed
  have early:
    "\<forall>e w1. GetKubeConfig B cluster w0 = (Inl e, w1) \<longrightarrow>
      getNodeJoinToken B cluster url (w0, tr0) =
        (Inl (Wrapf e ''failed to retrieve kubeconfig for cluster %q.'' [ClusterName cluster]),
         w1, tr0 @ [EvGetKubeConfig cluster (Inl e)])"
    "\<forall>kc w1 e w2. GetKubeConfig B cluster w0 = (Inr kc, w1) \<and>
      BuildConfigFromKubeconfigGetter B url kc w1 = (Inl e, w2) \<longrightarrow>
      getNodeJoinToken B cluster url (w0, tr0) =
        (Inl (Wrapf e ''failed to get client config for cluster at %q'' [url]),
         w2, tr0 @ [EvGetKubeConfig cluster (Inr kc),
                    EvBuildConfigFromKubeconfigGetter url kc (Inl e)])"
    "\<forall>kc w1 cfg w2 e w3. GetKubeConfig B cluster w0 = (Inr kc, w1) \<and>
      BuildConfigFromKubeconfigGetter B url kc w1 = (Inr cfg, w2) \<and>
      NewForConfig B cfg w2 = (Inl e, w3) \<longrightarrow>
      getNodeJoinToken B cluster url (w0, tr0) =
        (Inl (Wrapf e ''failed to initialize new corev1 client'' []),
         w3, tr0 @ [EvGetKubeConfig cluster (Inr kc),
                    EvBuildConfigFromKubeconfigGetter url kc (Inr cfg),
                    EvNewForConfig cfg (Inl e)])"
    by (simp_all add: getNodeJoinToken_def call_def)
  from early last show ?thesis by blast
qed

lemma Create_provisioning:
  assumes scope: "NewMachineScope B machine cluster w = (Inr scope, w1)"
      and ip: "GetIP B cluster w1 = (Inr url, w2)"
      and list: "MachineClient_List B scope w2 = (Inr ms, w3)"
      and cls: "isNodeJoin B (getControlPlaneMachines ms) machine cluster
                  (w3, [EvNewMachineScope machine cluster (Inr scope),
                        EvGetIP cluster (Inr url), EvList scope (Inr ms)])
                = ((join, None), w4, tr4)"
      and tok: "(if join then getNodeJoinToken B cluster url (w4, tr4) else (Inr [], w4, tr4))
                = (Inr tok, w5, tr5)"
  shows "case GetKubeConfig B cluster w5 of
           (Inl e, w6) \<Rightarrow>
             Create B cluster machine w =
               (Return (Some (Wrapf e
                  ''failed to retrieve kubeconfig while creating machine %q'' [Name machine])),
                machine, Close B scope w6,
                tr5 @ [EvGetKubeConfig cluster (Inl e), EvClose scope])
         | (Inr kc, w6) \<Rightarrow>
             \<exists>post. snd (snd (snd (Create B cluster machine w))) =
                      tr5 @ [EvGetKubeConfig cluster (Inr kc),
                             EvCreateOrGetMachine scope tok kc
                               (fst (CreateOrGetMachine B scope tok kc w6))] @ post \<and>
                    filter is_token_step post = [] \<and>
                    filter is_CreateOrGetMachine post = []"
proof -
  obtain r5 w6 where kcfg: "GetKubeConfig B cluster w5 = (r5, w6)"
    by (cases "GetKubeConfig B cluster w5")
  show ?thesis
  proof (cases r5)
    case (Inl e)
    with scope ip list cls tok kcfg show ?thesis
      by (simp add: Create_def Create_body_def call_def close_def)
  next
    case (Inr kc)
    note r5 = this
    obtain r6 w7 where cog: "CreateOrGetMachine B scope tok kc w6 = (r6, w7)"
      by (cases "CreateOrGetMachine B scope tok kc w6")
    let ?front = "tr5 @ [EvGetKubeConfig cluster (Inr kc),
                         EvCreateOrGetMachine scope tok kc r6]"
    have "\<exists>post. snd (snd (snd (Create B cluster machine w))) = ?front @ post \<and>
            filter is_token_step post = [] \<and> filter is_CreateOrGetMachine post = []"
    proof (cases r6)
      case (Inl e)
      with scope ip list cls tok kcfg r5 cog
      have "snd (snd (snd (Create B cluster machine w))) = ?front @ [EvClose scope]"
        by (simp add: Create_def Create_body_def call_def close_def)
      then show ?thesis
        by (intro exI [of _ "[EvClose scope]"]) (simp add: observer_defs)
    next
      case (Inr i)
      let ?m' = "machine\<lparr>Annotations := Some
                     ((case Annotations machine of None \<Rightarrow> Map.empty | Some a \<Rightarrow> a)
                        (''cluster-api-provider-aws'' \<mapsto> ''true''))\<rparr>"
      let ?sc' = "scope\<lparr>MachineStatus := (MachineStatus scope)
                    \<lparr>InstanceID := Some (ID i), InstanceState := Some (State i)\<rparr>\<rparr>"
      obtain r7 w8 t8 where lb:
        "reconcileLBAttachment B ?sc' ?m' i (w7, ?front) = (r7, w8, t8)"
        by (cases "reconcileLBAttachment B ?sc' ?m' i (w7, ?front)") auto
      from reconcileLBAttachment_run [OF lb] obtain levs where
        t8: "t8 = ?front @ levs" and levs: "lb_ok ?m' i (Return (map_option
           (\<lambda>e. Errorf ''failed to reconcile LB attachment: %+v'' [] (Some e)) r7)) levs"
        by auto
      from scope ip list cls tok kcfg r5 cog Inr lb
      have "snd (snd (snd (Create B cluster machine w))) = t8 @ [EvClose ?sc']"
        by (simp add: Create_def Create_body_def call_def close_def Let_def
              split: option.splits)
      with t8 have log: "snd (snd (snd (Create B cluster machine w))) =
                           ?front @ (levs @ [EvClose ?sc'])"
        by simp
      have "\<forall>ev\<in>set (levs @ [EvClose ?sc']). \<not> is_token_step ev \<and> \<not> is_CreateOrGetMachine ev"
        using lb_ok_events [OF levs] by (auto simp: observer_defs)
      then have "filter is_token_step (levs @ [EvClose ?sc']) = []"
        "filter is_CreateOrGetMachine (levs @ [EvClose ?sc']) = []"
        by (auto simp: filter_empty_conv)
      with log show ?thesis by blast
    qed
    with kcfg r5 cog show ?thesis by simp
  qed
qed

lemma Create_token_failed:
  assumes scope: "NewMachineScope B machine cluster w = (Inr scope, w1)"
      and ip: "GetIP B cluster w1 = (Inr url, w2)"
      and list: "MachineClient_List B scope w2 = (Inr ms, w3)"
      and cls: "isNodeJoin B (getControlPlaneMachines ms) machine cluster
                  (w3, [EvNewMachineScope machine cluster (Inr scope),
                        EvGetIP cluster (Inr url), EvList scope (Inr ms)])
                = ((True, None), w4, tr4)"
      and tok: "getNodeJoinToken B cluster url (w4, tr4) = (Inl err, w5, tr5)"
  shows "Create B cluster machine w =
           (Return (Some (Wrapf err
              ''failed to obtain token for node %q to join cluster %q''
              [Name machine, ClusterName cluster])),
            machine, Close B scope w5, tr5 @ [EvClose scope]) \<and>
         filter is_CreateOrGetMachine (tr5 @ [EvClose scope]) = []"
proof -
  from isNodeJoin_run [OF cls] obtain evs where
    tr4: "tr4 = [EvNewMachineScope machine cluster (Inr scope),
                 EvGetIP cluster (Inr url), EvList scope (Inr ms)] @ evs"
    and ok: "cls_ok machine (getControlPlaneMachines ms) True evs"
    by auto
  from getNodeJoinToken_run [OF tok] obtain tevs where
    tr5: "tr5 = tr4 @ tevs" and failed: "token_failed cluster url tevs"
    by auto
  have "\<forall>ev\<in>set (evs @ tevs). \<not> is_CreateOrGetMachine ev"
    using cls_ok_events [OF ok] check_events token_failed_events [OF failed] by auto
  then have "filter is_CreateOrGetMachine (evs @ tevs) = []"
    by (auto simp: filter_empty_conv)
  then have "filter is_CreateOrGetMachine (tr5 @ [EvClose scope]) = []"
    unfolding tr5 tr4 by (simp add: is_CreateOrGetMachine_def)
  moreover from scope ip list cls tok have "Create B cluster machine w =
           (Return (Some (Wrapf err
              ''failed to obtain token for node %q to join cluster %q''
              [Name machine, ClusterName cluster])),
            machine, Close B scope w5, tr5 @ [EvClose scope])"
    by (simp add: Create_def Create_body_def call_def close_def)
  ultimately show ?thesis by simp
qed

lemma classified_no_token_step:
  assumes cls: "isNodeJoin B cps machine cluster
                  (w3, [EvNewMachineScope machine cluster (Inr scope),
                        EvGetIP cluster (Inr url), EvList scope (Inr ms)])
                = ((join, None), w4, tr4)"
  shows "filter is_token_step tr4 = []"
proof -
  from isNodeJoin_run [OF cls] obtain evs where
    tr4: "tr4 = [EvNewMachineScope machine cluster (Inr scope),
                 EvGetIP cluster (Inr url), EvList scope (Inr ms)] @ evs"
    and ok: "cls_ok machine cps join evs"
    by auto
  have "\<forall>ev\<in>set evs. \<not> is_token_step ev"
    using cls_ok_events [OF ok] check_events by blast
  then have "filter is_token_step evs = []"
    by (auto simp: filter_empty_conv)
  then show ?thesis unfolding tr4 by (simp add: is_token_step_def)
qed

lemma classified_no_provisioning:
  assumes cls: "isNodeJoin B cps machine cluster
                  (w3, [EvNewMachineScope machine cluster (Inr scope),
                        EvGetIP cluster (Inr url), EvList scope (Inr ms)])
                = ((join, None), w4, tr4)"
  shows "filter is_CreateOrGetMachine tr4 = []"
proof -
  from isNodeJoin_run [OF cls] obtain evs where
    tr4: "tr4 = [EvNewMachineScope machine cluster (Inr scope),
                 EvGetIP cluster (Inr url), EvList scope (Inr ms)] @ evs"
    and ok: "cls_ok machine cps join evs"
    by auto
  have "\<forall>ev\<in>set evs. \<not> is_CreateOrGetMachine ev"
    using cls_ok_events [OF ok] check_events by blast
  then have "filter is_CreateOrGetMachine evs = []"
    by (auto simp: filter_empty_conv)
  then show ?thesis unfolding tr4 by (simp add: is_CreateOrGetMachine_def)
qed

lemma token_no_provisioning:
  assumes tok: "getNodeJoinToken B cluster url (w4, tr4) = (r, w5, tr5)"
  shows "filter is_CreateOrGetMachine tr5 = filter is_CreateOrGetMachine tr4"
proof -
  from getNodeJoinToken_run [OF tok] obtain tevs where
    tr5: "tr5 = tr4 @ tevs"
    and shape: "case r of Inr tok \<Rightarrow> token_ok cluster url True tok tevs
                     | Inl e \<Rightarrow> token_failed cluster url tevs"
    by auto
  have "\<forall>ev\<in>set tevs. \<not> is_CreateOrGetMachine ev"
    using shape token_ok_events token_failed_events by (cases r) fastforce+
  then have "filter is_CreateOrGetMachine tevs = []"
    by (auto simp: filter_empty_conv)
  then show ?thesis unfolding tr5 by simp
qed


subsection \<open>Delete\<close>

text \<open>
  C1. The claim: for a machine whose status records no instance ID, and for a machine
  whose instance is absent from the backend, \<^verbatim>\<open>Delete\<close> returns success without a
  terminate call. The second half holds (\<open>Delete_absent_instance\<close>). The first does
  not: line 235 dereferences the \<^verbatim>\<open>nil\<close> instance ID before any lookup, so the verb
  panics. The theorem runs \<^verbatim>\<open>Delete\<close> on such a machine: the outcome is a panic, and
  the log holds the scope construction and the deferred close only.
\<close>

theorem Delete_without_instance_id_panics:
  "Delete demo demo_cluster (demo_machine ''never-provisioned'' ''node'' []) 0 =
     (Panic, 2,
      [EvNewMachineScope (demo_machine ''never-provisioned'' ''node'' []) demo_cluster
         (Inr (demo_scope (demo_machine ''never-provisioned'' ''node'' []) demo_cluster)),
       EvClose (demo_scope (demo_machine ''never-provisioned'' ''node'' []) demo_cluster)])"
  by (simp add: Delete_def Delete_body_def call_def close_def demo_def demo_scope_def
        demo_machine_def)

lemma Delete_absent_instance:
  assumes run: "Delete B cluster machine w = (out, w', tr)"
      and absent: "EvInstanceIfExists instanceID (Inr None) \<in> set tr"
  shows "out = Return None \<and> filter is_TerminateInstance tr = []"
  using run absent unfolding Delete_def Delete_body_def call_def close_def
  by (auto simp: is_TerminateInstance_def
        split: prod.splits sum.splits option.splits if_splits)

text \<open>
  C5. Take a machine whose scope was built, whose status records an instance ID and
  whose instance the backend finds. If the instance is shutting down or terminated,
  \<^verbatim>\<open>Delete\<close> returns \<^verbatim>\<open>nil\<close>, leaves the world as the lookup left it (closed), and its log
  holds the scope construction, the lookup and the close: \<^verbatim>\<open>TerminateInstance\<close> was not
  applied. In every other state \<^verbatim>\<open>Delete\<close> applies \<^verbatim>\<open>TerminateInstance\<close> once, to the
  recorded ID, in the world the lookup left; the world it leaves is the one the
  termination request produced (closed), so nothing waits for the instance to disappear;
  and it returns \<^verbatim>\<open>nil\<close> iff the request replied \<^verbatim>\<open>nil\<close>, the wrapped error of the request
  otherwise.
\<close>

theorem Delete_live_state:
  assumes scope: "NewMachineScope B machine cluster w = (Inr scope, w1)"
      and recorded: "InstanceID (MachineStatus scope) = Some instanceID"
      and live: "InstanceIfExists B instanceID w1 = (Inr (Some instance), w2)"
  shows "if State instance = InstanceStateShuttingDown \<or>
            State instance = InstanceStateTerminated
         then Delete B cluster machine w =
                (Return None, Close B scope w2,
                 [EvNewMachineScope machine cluster (Inr scope),
                  EvInstanceIfExists instanceID (Inr (Some instance)), EvClose scope])
         else Delete B cluster machine w =
                (Return (map_option
                           (\<lambda>e. Errorf ''failed to terminate instance: %+v'' [] (Some e))
                           (fst (TerminateInstance B instanceID w2))),
                 Close B scope (snd (TerminateInstance B instanceID w2)),
                 [EvNewMachineScope machine cluster (Inr scope),
                  EvInstanceIfExists instanceID (Inr (Some instance)),
                  EvTerminateInstance instanceID (fst (TerminateInstance B instanceID w2)),
                  EvClose scope]) \<and>
              (fst (Delete B cluster machine w) = Return None \<longleftrightarrow>
                 fst (TerminateInstance B instanceID w2) = None)"
  using scope recorded live
  by (cases "TerminateInstance B instanceID w2")
     (auto simp: Delete_def Delete_body_def verb_defs split: option.splits)

theorem Delete_live_state_witness:
  "Delete demo demo_cluster (demo_machine ''terminated'' ''node'' []) 0 =
     (Return None, 3,
      [EvNewMachineScope (demo_machine ''terminated'' ''node'' []) demo_cluster
         (Inr (demo_scope (demo_machine ''terminated'' ''node'' []) demo_cluster)),
       EvInstanceIfExists ''i-terminated'' (Inr (Some (demo_instance ''i-terminated''))),
       EvClose (demo_scope (demo_machine ''terminated'' ''node'' []) demo_cluster)]) \<and>
   Delete demo demo_cluster (demo_machine ''running'' ''node'' []) 0 =
     (Return None, 4,
      [EvNewMachineScope (demo_machine ''running'' ''node'' []) demo_cluster
         (Inr (demo_scope (demo_machine ''running'' ''node'' []) demo_cluster)),
       EvInstanceIfExists ''i-running'' (Inr (Some (demo_instance ''i-running''))),
       EvTerminateInstance ''i-running'' None,
       EvClose (demo_scope (demo_machine ''running'' ''node'' []) demo_cluster)]) \<and>
   Delete demo demo_cluster (demo_machine ''stopped'' ''node'' []) 0 =
     (Return (Some (Errorf ''failed to terminate instance: %+v'' []
        (Some (External ''OperationNotPermitted'')))), 4,
      [EvNewMachineScope (demo_machine ''stopped'' ''node'' []) demo_cluster
         (Inr (demo_scope (demo_machine ''stopped'' ''node'' []) demo_cluster)),
       EvInstanceIfExists ''i-stopped'' (Inr (Some (demo_instance ''i-stopped''))),
       EvTerminateInstance ''i-stopped'' (Some (External ''OperationNotPermitted'')),
       EvClose (demo_scope (demo_machine ''stopped'' ''node'' []) demo_cluster)])"
proof -
  have scope: "NewMachineScope demo (demo_machine n ''node'' []) demo_cluster 0 =
                 (Inr (demo_scope (demo_machine n ''node'' []) demo_cluster), 1)"
    if "n \<noteq> ''undecodable''" for n
    using that by (simp add: demo_def demo_machine_def)
  have recorded: "InstanceID (MachineStatus (demo_scope (demo_machine n ''node'' []) demo_cluster))
                    = Some (''i-'' @ n)"
    if "n \<noteq> ''never-provisioned''" for n
    using that by (simp add: demo_scope_def demo_machine_def)
  have live: "InstanceIfExists demo (''i-'' @ n) 1 = (Inr (Some (demo_instance (''i-'' @ n))), 2)"
    if "n \<noteq> ''gone''" for n
    using that by (simp add: demo_def)
  have states: "State (demo_instance (''i-'' @ ''terminated'')) = InstanceStateTerminated"
    "State (demo_instance (''i-'' @ ''running'')) \<noteq> InstanceStateTerminated"
    "State (demo_instance (''i-'' @ ''running'')) \<noteq> InstanceStateShuttingDown"
    "State (demo_instance (''i-'' @ ''stopped'')) \<noteq> InstanceStateTerminated"
    "State (demo_instance (''i-'' @ ''stopped'')) \<noteq> InstanceStateShuttingDown"
    by (simp_all add: demo_defs)
  have terminate: "TerminateInstance demo (''i-'' @ ''running'') 2 = (None, 3)"
    "TerminateInstance demo (''i-'' @ ''stopped'') 2 =
       (Some (External ''OperationNotPermitted''), 3)"
    "Close demo sc 2 = 3" "Close demo sc 3 = 4" for sc
    by (simp_all add: demo_def)
  from Delete_live_state [OF scope recorded live, of "''terminated''"]
       Delete_live_state [OF scope recorded live, of "''running''"]
       Delete_live_state [OF scope recorded live, of "''stopped''"]
       states terminate
  show ?thesis by simp
qed

subsection \<open>Exists\<close>



text \<open>
  C8. Take a machine whose scope was built, whose status records an instance ID and
  whose instance the backend finds running or pending. If the machine is labelled
  \<^verbatim>\<open>controlplane\<close>, \<^verbatim>\<open>Exists\<close> applies \<^verbatim>\<open>RegisterInstanceWithAPIServerELB\<close> to the ID of the
  instance in the world the lookup left, leaves the world that registration produced
  (closed) and returns \<^verbatim>\<open>true\<close> together with the reply of the registration: \<^verbatim>\<open>nil\<close> when
  it succeeded, its wrapped error when it failed. For any other label \<^verbatim>\<open>Exists\<close> returns
  \<^verbatim>\<open>(true, nil)\<close>, the world is the one the lookup left (closed) and the log has no
  registration. \<^verbatim>\<open>reconcileLBAttachment\<close> itself leaves world and log as they are, and
  returns \<^verbatim>\<open>nil\<close>, for a machine not labelled \<^verbatim>\<open>controlplane\<close>, and applies the
  registration once for a machine that is.
\<close>

theorem Exists_load_balancer:
  assumes scope: "NewMachineScope B machine cluster w = (Inr scope, w1)"
      and recorded: "InstanceID (MachineStatus scope) = Some instanceID"
      and live: "InstanceIfExists B instanceID w1 = (Inr (Some instance), w2)"
      and state: "State instance = InstanceStateRunning \<or> State instance = InstanceStatePending"
  shows "(if index (Labels machine) ''set'' = ''controlplane''
          then Exists B cluster machine w =
                 (Return (True, map_option
                    (\<lambda>e. Wrapf e
                       ''could not register control plane instance %q with load balancer''
                       [ID instance])
                    (fst (RegisterInstanceWithAPIServerELB B (ID instance) w2))),
                  Close B scope (snd (RegisterInstanceWithAPIServerELB B (ID instance) w2)),
                  [EvNewMachineScope machine cluster (Inr scope),
                   EvInstanceIfExists instanceID (Inr (Some instance)),
                   EvRegisterInstanceWithAPIServerELB (ID instance)
                     (fst (RegisterInstanceWithAPIServerELB B (ID instance) w2)),
                   EvClose scope])
          else Exists B cluster machine w =
                 (Return (True, None), Close B scope w2,
                  [EvNewMachineScope machine cluster (Inr scope),
                   EvInstanceIfExists instanceID (Inr (Some instance)), EvClose scope])) \<and>
         (\<forall>sc m i w0 tr0. reconcileLBAttachment B sc m i (w0, tr0) =
            (if index (Labels m) ''set'' = ''controlplane''
             then (map_option
                     (\<lambda>e. Wrapf e
                        ''could not register control plane instance %q with load balancer''
                        [ID i])
                     (fst (RegisterInstanceWithAPIServerELB B (ID i) w0)),
                   snd (RegisterInstanceWithAPIServerELB B (ID i) w0),
                   tr0 @ [EvRegisterInstanceWithAPIServerELB (ID i)
                            (fst (RegisterInstanceWithAPIServerELB B (ID i) w0))])
             else (None, w0, tr0)))"
proof -
  have lb: "reconcileLBAttachment B sc m i (w0, tr0) =
            (if index (Labels m) ''set'' = ''controlplane''
             then (map_option
                     (\<lambda>e. Wrapf e
                        ''could not register control plane instance %q with load balancer''
                        [ID i])
                     (fst (RegisterInstanceWithAPIServerELB B (ID i) w0)),
                   snd (RegisterInstanceWithAPIServerELB B (ID i) w0),
                   tr0 @ [EvRegisterInstanceWithAPIServerELB (ID i)
                            (fst (RegisterInstanceWithAPIServerELB B (ID i) w0))])
             else (None, w0, tr0))" for sc m i w0 tr0
    by (cases "RegisterInstanceWithAPIServerELB B (ID i) w0")
       (auto simp: reconcileLBAttachment_def call_def split: option.splits)
  have verb: "Exists B cluster machine w =
      (case reconcileLBAttachment B scope machine instance
              (w2, [EvNewMachineScope machine cluster (Inr scope),
                    EvInstanceIfExists instanceID (Inr (Some instance))]) of
         (err, w3, tr3) \<Rightarrow> (Return (True, err), Close B scope w3, tr3 @ [EvClose scope]))"
    using scope recorded live state
    by (auto simp: Exists_def Exists_body_def call_def close_def split: prod.splits option.splits)
  show ?thesis
    unfolding verb lb by (simp add: lb)
qed

theorem Exists_load_balancer_witness:
  "Exists demo demo_cluster (demo_machine ''unreachable'' ''controlplane'' []) 0 =
     (Return (True, Some (Wrapf (External ''LoadBalancerNotFound'')
        ''could not register control plane instance %q with load balancer''
        [''i-unreachable''])), 4,
      [EvNewMachineScope (demo_machine ''unreachable'' ''controlplane'' []) demo_cluster
         (Inr (demo_scope (demo_machine ''unreachable'' ''controlplane'' []) demo_cluster)),
       EvInstanceIfExists ''i-unreachable'' (Inr (Some (demo_instance ''i-unreachable''))),
       EvRegisterInstanceWithAPIServerELB ''i-unreachable''
         (Some (External ''LoadBalancerNotFound'')),
       EvClose (demo_scope (demo_machine ''unreachable'' ''controlplane'' []) demo_cluster)]) \<and>
   Exists demo demo_cluster (demo_machine ''pending'' ''controlplane'' []) 0 =
     (Return (True, None), 4,
      [EvNewMachineScope (demo_machine ''pending'' ''controlplane'' []) demo_cluster
         (Inr (demo_scope (demo_machine ''pending'' ''controlplane'' []) demo_cluster)),
       EvInstanceIfExists ''i-pending'' (Inr (Some (demo_instance ''i-pending''))),
       EvRegisterInstanceWithAPIServerELB ''i-pending'' None,
       EvClose (demo_scope (demo_machine ''pending'' ''controlplane'' []) demo_cluster)]) \<and>
   Exists demo demo_cluster (demo_machine ''unreachable'' ''node'' []) 0 =
     (Return (True, None), 3,
      [EvNewMachineScope (demo_machine ''unreachable'' ''node'' []) demo_cluster
         (Inr (demo_scope (demo_machine ''unreachable'' ''node'' []) demo_cluster)),
       EvInstanceIfExists ''i-unreachable'' (Inr (Some (demo_instance ''i-unreachable''))),
       EvClose (demo_scope (demo_machine ''unreachable'' ''node'' []) demo_cluster)])"
proof -
  have scope: "NewMachineScope demo (demo_machine n role []) demo_cluster 0 =
                 (Inr (demo_scope (demo_machine n role []) demo_cluster), 1)"
    if "n \<noteq> ''undecodable''" for n role
    using that by (simp add: demo_def demo_machine_def)
  have recorded: "InstanceID (MachineStatus (demo_scope (demo_machine n role []) demo_cluster))
                    = Some (''i-'' @ n)"
    if "n \<noteq> ''never-provisioned''" for n role
    using that by (simp add: demo_scope_def demo_machine_def)
  have live: "InstanceIfExists demo (''i-'' @ n) 1 = (Inr (Some (demo_instance (''i-'' @ n))), 2)"
    if "n \<noteq> ''gone''" for n
    using that by (simp add: demo_def)
  have states: "State (demo_instance (''i-'' @ ''unreachable'')) = InstanceStateRunning"
    "State (demo_instance (''i-'' @ ''pending'')) = InstanceStatePending"
    by (simp_all add: demo_defs)
  have labels: "index (Labels (demo_machine n ''controlplane'' [])) ''set'' = ''controlplane''"
    "index (Labels (demo_machine n ''node'' [])) ''set'' \<noteq> ''controlplane''" for n
    by (simp_all add: demo_machine_def index_def)
  have replies: "RegisterInstanceWithAPIServerELB demo ''i-unreachable'' 2 =
                   (Some (External ''LoadBalancerNotFound''), 3)"
    "RegisterInstanceWithAPIServerELB demo ''i-pending'' 2 = (None, 3)"
    "Close demo sc 2 = 3" "Close demo sc 3 = 4"
    "ID (demo_instance i) = i" for sc i
    by (simp_all add: demo_def demo_instance_def)
  from Exists_load_balancer [OF scope recorded live disjI1 [OF states(1)],
         of "''controlplane''"]
       Exists_load_balancer [OF scope recorded live disjI2 [OF states(2)],
         of "''controlplane''"]
       Exists_load_balancer [OF scope recorded live disjI1 [OF states(1)], of "''node''"]
       labels replies
  show ?thesis by simp
qed

subsection \<open>Create\<close>

text \<open>
  C3. In a run of \<^verbatim>\<open>Create\<close> whose provisioning call \<^verbatim>\<open>CreateOrGetMachine\<close> failed with
  \<open>err\<close>: if the cause of \<open>err\<close> is classified as a failed dependency, the verb returns
  \<^verbatim>\<open>RequeueAfterError\<close> with \<^verbatim>\<open>time.Minute\<close>, which is 60 * 10^9 nanoseconds; for every
  other \<open>err\<close> it returns the error \<^verbatim>\<open>failed to create or get machine\<close>, which is not a
  \<^verbatim>\<open>RequeueAfterError\<close>.
\<close>

theorem Create_requeue_after:
  assumes run: "Create B cluster machine w = (out, machine', w', tr)"
      and fail: "EvCreateOrGetMachine scope token kubeConfig (Inl err) \<in> set tr"
  shows "out = Return (Some (if IsFailedDependency B (Cause err)
                             then RequeueAfterError time_Minute
                             else Errorf ''failed to create or get machine: %+v'' []
                                    (Some err))) \<and>
         time_Minute = 60 * 1000000000"
proof -
  have cog: "is_CreateOrGetMachine (EvCreateOrGetMachine scope token kubeConfig (Inl err))"
    by (simp add: is_CreateOrGetMachine_def)
  have "out = Return (Some (if IsFailedDependency B (Cause err)
                             then RequeueAfterError 60000000000
                             else Errorf ''failed to create or get machine: %+v'' []
                                    (Some err)))"
    using run
  proof (cases rule: Create_run)
    case (scope_failed e)
    with fail show ?thesis by simp
  next
    case (ip_failed scope e wl)
    with fail show ?thesis by simp
  next
    case (list_failed scope url e wl)
    with fail show ?thesis by simp
  next
    case (classify_failed sc url ms evs e wl)
    with fail cog show ?thesis
      using cls_failed_events [of machine "getControlPlaneMachines ms" evs] check_events
      by auto
  next
    case (token_failed sc url ms evs tevs e wl)
    with fail cog show ?thesis
      using cls_ok_events [of machine "getControlPlaneMachines ms" True evs] check_events
        token_failed_events [of cluster url tevs]
      by auto
  next
    case (kubeconfig_failed sc url ms evs join tok tevs e wl)
    with fail cog show ?thesis
      using cls_ok_events [of machine "getControlPlaneMachines ms" join evs] check_events
        token_ok_events [of cluster url join tok tevs]
      by auto
  next
    case (provision_failed sc url ms evs join tok tevs kc e wl)
    with fail cog show ?thesis
      using cls_ok_events [of machine "getControlPlaneMachines ms" join evs] check_events
        token_ok_events [of cluster url join tok tevs]
      by auto
  next
    case (provisioned sc url ms evs join tok tevs kc i levs wl)
    with fail cog show ?thesis
      using cls_ok_events [of machine "getControlPlaneMachines ms" join evs] check_events
        token_ok_events [of cluster url join tok tevs] lb_ok_events [of machine i out levs]
      by auto
  qed
  then show ?thesis by (simp add: time_Minute_def time_Second_def)
qed

theorem Create_requeue_after_witness:
  "fst (Create demo demo_cluster (demo_machine ''net-not-ready'' ''node'' []) 0) =
     Return (Some (RequeueAfterError 60000000000)) \<and>
   fst (Create demo demo_cluster (demo_machine ''over-quota'' ''node'' []) 0) =
     Return (Some (Errorf ''failed to create or get machine: %+v'' []
       (Some (External ''InstanceLimitExceeded''))))"
proof -
  let ?n = "demo_machine ''net-not-ready'' ''node'' []"
  let ?q = "demo_machine ''over-quota'' ''node'' []"
  have run: "Create demo demo_cluster m 0 =
      (fst (Create demo demo_cluster m 0), fst (snd (Create demo demo_cluster m 0)),
       fst (snd (snd (Create demo demo_cluster m 0))),
       snd (snd (snd (Create demo demo_cluster m 0))))" for m
    by simp
  have ln: "EvCreateOrGetMachine (demo_scope ?n demo_cluster) ''abcdef.0123456789abcdef''
              ''kubeconfig''
              (Inl (Wrapf (External ''FailedDependency'') ''failed to run instance'' []))
            \<in> set (snd (snd (snd (Create demo demo_cluster ?n 0))))"
    by (simp add: Create_def Create_body_def isNodeJoin_def getNodeJoinToken_def call_def
          close_def demo_defs)
  have lq: "EvCreateOrGetMachine (demo_scope ?q demo_cluster) ''abcdef.0123456789abcdef''
              ''kubeconfig'' (Inl (External ''InstanceLimitExceeded''))
            \<in> set (snd (snd (snd (Create demo demo_cluster ?q 0))))"
    by (simp add: Create_def Create_body_def isNodeJoin_def getNodeJoinToken_def call_def
          close_def demo_defs)
  have dep: "IsFailedDependency demo
               (Cause (Wrapf (External ''FailedDependency'') ''failed to run instance'' []))"
    "\<not> IsFailedDependency demo (Cause (External ''InstanceLimitExceeded''))"
    by (simp_all add: demo_def)
  from Create_requeue_after [OF run [of ?n] ln] Create_requeue_after [OF run [of ?q] lq] dep
  show ?thesis by simp
qed

text \<open>
  C4. For every list of candidates and every new machine, in a run of \<^verbatim>\<open>isNodeJoin\<close>
  from any state. Label \<^verbatim>\<open>node\<close>: the result is \<^verbatim>\<open>(true, nil)\<close> and nothing is asked.
  Label \<^verbatim>\<open>controlplane\<close>: the result is a join iff some candidate is reported to exist
  when asked after all candidates before it were reported not to exist; it is the error
  \<open>e\<close> iff asking some candidate fails with \<open>e\<close> (the scope construction or the existence
  check) after all candidates before it were reported not to exist; it is \<^verbatim>\<open>(false, nil)\<close>
  iff every candidate is reported not to exist; an error never comes with a join; and
  the state left is the one after asking the candidates up to and including the first
  that exists or fails, all of them when there is none, so the search stops there. Any
  other label, the absent one included: the result is \<^verbatim>\<open>false\<close> with the error built by
  \<^verbatim>\<open>Sprintf\<close>, and nothing is asked. In \<^verbatim>\<open>Create\<close>, when the classification ends with an
  error, the verb returns that error wrapped, leaves the world the classification left
  (closed), and its log has no provisioning call.
\<close>

theorem isNodeJoin_classification:
  assumes cls: "isNodeJoin B cpms newMachine cluster s = ((join, err), s')"
  shows \<open>(index (Labels newMachine) ''set'' = ''node'' \<longrightarrow> join \<and> err = None \<and> s' = s) \<and>
         (index (Labels newMachine) ''set'' = ''controlplane'' \<longrightarrow>
            (join \<longleftrightarrow> (\<exists>pre cm post. cpms = pre @ cm # post \<and> none_exists B cluster pre s \<and>
                     fst (ask B cluster cm (asked B cluster pre s)) = Inr True)) \<and>
            (\<forall>e. err = Some e \<longleftrightarrow>
                 (\<exists>pre cm post. cpms = pre @ cm # post \<and> none_exists B cluster pre s \<and>
                     fst (ask B cluster cm (asked B cluster pre s)) = Inl e)) \<and>
            (none_exists B cluster cpms s \<longleftrightarrow> \<not> join \<and> err = None) \<and>
            (err \<noteq> None \<longrightarrow> \<not> join) \<and>
            (if none_exists B cluster cpms s then s' = asked B cluster cpms s
             else \<exists>pre cm post. cpms = pre @ cm # post \<and> none_exists B cluster pre s \<and>
                    fst (ask B cluster cm (asked B cluster pre s)) \<noteq> Inr False \<and>
                    s' = asked B cluster (pre @ [cm]) s)) \<and>
         (index (Labels newMachine) ''set'' \<noteq> ''node'' \<and>
          index (Labels newMachine) ''set'' \<noteq> ''controlplane'' \<longrightarrow>
            \<not> join \<and> s' = s \<and>
            err = Some (Errorf (Sprintf B
              ''Unknown value %q for label "set" on machine %q, skipping machine creation''
              [index (Labels newMachine) ''set'', Name newMachine]) [] None)) \<and>
         (\<forall>w scope w1 url w2 ms w3 j e w4 tr4.
            NewMachineScope B newMachine cluster w = (Inr scope, w1) \<and>
            GetIP B cluster w1 = (Inr url, w2) \<and>
            MachineClient_List B scope w2 = (Inr ms, w3) \<and>
            isNodeJoin B (getControlPlaneMachines ms) newMachine cluster
              (w3, [EvNewMachineScope newMachine cluster (Inr scope),
                    EvGetIP cluster (Inr url), EvList scope (Inr ms)])
              = ((j, Some e), w4, tr4) \<longrightarrow>
            Create B cluster newMachine w =
              (Return (Some (Wrapf e
                 ''failed to determine whether machine %q should join cluster %q''
                 [Name newMachine, ClusterName cluster])),
               newMachine, Close B scope w4, tr4 @ [EvClose scope]) \<and>
            filter is_CreateOrGetMachine (tr4 @ [EvClose scope]) = [])\<close>
proof -
  have node: "index (Labels newMachine) ''set'' = ''node'' \<longrightarrow> join \<and> err = None \<and> s' = s"
    using cls by (auto simp: isNodeJoin_def split: if_splits)
  have search: "index (Labels newMachine) ''set'' = ''controlplane'' \<longrightarrow>
            (join \<longleftrightarrow> (\<exists>pre cm post. cpms = pre @ cm # post \<and> none_exists B cluster pre s \<and>
                     fst (ask B cluster cm (asked B cluster pre s)) = Inr True)) \<and>
            (\<forall>e. err = Some e \<longleftrightarrow>
                 (\<exists>pre cm post. cpms = pre @ cm # post \<and> none_exists B cluster pre s \<and>
                     fst (ask B cluster cm (asked B cluster pre s)) = Inl e)) \<and>
            (none_exists B cluster cpms s \<longleftrightarrow> \<not> join \<and> err = None) \<and>
            (err \<noteq> None \<longrightarrow> \<not> join) \<and>
            (if none_exists B cluster cpms s then s' = asked B cluster cpms s
             else \<exists>pre cm post. cpms = pre @ cm # post \<and> none_exists B cluster pre s \<and>
                    fst (ask B cluster cm (asked B cluster pre s)) \<noteq> Inr False \<and>
                    s' = asked B cluster (pre @ [cm]) s)"
    by (rule impI) (rule search_result [OF cls])
  have other: \<open>index (Labels newMachine) ''set'' \<noteq> ''node'' \<and>
          index (Labels newMachine) ''set'' \<noteq> ''controlplane'' \<longrightarrow>
            \<not> join \<and> s' = s \<and>
            err = Some (Errorf (Sprintf B
              ''Unknown value %q for label "set" on machine %q, skipping machine creation''
              [index (Labels newMachine) ''set'', Name newMachine]) [] None)\<close>
    using cls by (auto simp: isNodeJoin_def split: if_splits)
  have abort: "\<forall>w scope w1 url w2 ms w3 j e w4 tr4.
            NewMachineScope B newMachine cluster w = (Inr scope, w1) \<and>
            GetIP B cluster w1 = (Inr url, w2) \<and>
            MachineClient_List B scope w2 = (Inr ms, w3) \<and>
            isNodeJoin B (getControlPlaneMachines ms) newMachine cluster
              (w3, [EvNewMachineScope newMachine cluster (Inr scope),
                    EvGetIP cluster (Inr url), EvList scope (Inr ms)])
              = ((j, Some e), w4, tr4) \<longrightarrow>
            Create B cluster newMachine w =
              (Return (Some (Wrapf e
                 ''failed to determine whether machine %q should join cluster %q''
                 [Name newMachine, ClusterName cluster])),
               newMachine, Close B scope w4, tr4 @ [EvClose scope]) \<and>
            filter is_CreateOrGetMachine (tr4 @ [EvClose scope]) = []"
    by (intro allI impI, elim conjE, rule Create_classification_failed)
  show ?thesis
    by (rule conjI [OF node conjI [OF search conjI [OF other abort]]])
qed

theorem isNodeJoin_classification_witness:
  \<open>fst (isNodeJoin demo [demo_machine ''running'' ''controlplane'' ''1.13.0'']
          (demo_machine ''fresh'' ''node'' []) demo_cluster (0, [])) = (True, None) \<and>
   fst (isNodeJoin demo
          [demo_machine ''never-provisioned'' ''node'' ''1.13.0'',
           demo_machine ''running'' ''controlplane'' ''1.13.0'',
           demo_machine ''lookup-error'' ''controlplane'' ''1.13.0'']
          (demo_machine ''fresh'' ''controlplane'' ''1.13.0'') demo_cluster (0, []))
     = (True, None) \<and>
   fst (isNodeJoin demo [demo_machine ''never-provisioned'' ''node'' ''1.13.0'']
          (demo_machine ''fresh'' ''controlplane'' ''1.13.0'') demo_cluster (0, []))
     = (False, None) \<and>
   fst (isNodeJoin demo
          [demo_machine ''lookup-error'' ''controlplane'' ''1.13.0'',
           demo_machine ''running'' ''controlplane'' ''1.13.0'']
          (demo_machine ''fresh'' ''controlplane'' ''1.13.0'') demo_cluster (0, []))
     = (False, Some (Wrapf (External ''RequestLimitExceeded'')
          ''failed to verify existence of machine %q'' [''lookup-error''])) \<and>
   fst (Create demo demo_cluster (demo_machine ''fresh'' ''etcd'' []) 0) =
     Return (Some (Wrapf
       (Errorf (Sprintf demo
          ''Unknown value %q for label "set" on machine %q, skipping machine creation''
          [''etcd'', ''fresh'']) [] None)
       ''failed to determine whether machine %q should join cluster %q''
       [''fresh'', ''test1''])) \<and>
   fst (snd (snd (Create demo demo_cluster (demo_machine ''fresh'' ''etcd'' []) 0))) = 4 \<and>
   filter is_CreateOrGetMachine
     (snd (snd (snd (Create demo demo_cluster (demo_machine ''fresh'' ''etcd'' []) 0)))) = []\<close>
proof -
  let ?np = "demo_machine ''never-provisioned'' ''node'' ''1.13.0''"
  let ?run = "demo_machine ''running'' ''controlplane'' ''1.13.0''"
  let ?le = "demo_machine ''lookup-error'' ''controlplane'' ''1.13.0''"
  let ?n = "demo_machine ''fresh'' ''node'' []"
  let ?c = "demo_machine ''fresh'' ''controlplane'' ''1.13.0''"
  let ?e = "demo_machine ''fresh'' ''etcd'' []"
  have cls: "isNodeJoin demo cps m demo_cluster (0, []) =
      ((fst (fst (isNodeJoin demo cps m demo_cluster (0, []))),
        snd (fst (isNodeJoin demo cps m demo_cluster (0, [])))),
       snd (isNodeJoin demo cps m demo_cluster (0, [])))" for cps m
    by simp
  have lab: "index (Labels ?n) ''set'' = ''node''"
    "index (Labels ?c) ''set'' = ''controlplane''"
    "index (Labels ?e) ''set'' \<noteq> ''node'' \<and> index (Labels ?e) ''set'' \<noteq> ''controlplane''"
    by (simp_all add: demo_defs)
  from isNodeJoin_classification [OF cls [of "[?run]" ?n], THEN conjunct1, THEN mp, OF lab(1)]
  have 1: "fst (isNodeJoin demo [?run] ?n demo_cluster (0, [])) = (True, None)"
    by (simp add: prod_eq_iff)
  have absent: "none_exists demo demo_cluster [?np] (0, [])"
    by (simp add: ask_def demo_defs)
  have found: "fst (ask demo demo_cluster ?run (asked demo demo_cluster [?np] (0, []))) = Inr True"
    by (simp add: ask_def demo_defs)
  have ex: "\<exists>pre cm post. [?np, ?run, ?le] = pre @ cm # post \<and> none_exists demo demo_cluster pre (0, []) \<and>
          fst (ask demo demo_cluster cm (asked demo demo_cluster pre (0, []))) = Inr True"
    using absent found by (intro exI [of _ "[?np]"] exI [of _ ?run] exI [of _ "[?le]"]) simp
  note found_search = isNodeJoin_classification [OF cls [of "[?np, ?run, ?le]" ?c],
      THEN conjunct2, THEN conjunct1, THEN mp, OF lab(2)]
  from found_search [THEN conjunct1] ex
  have j2: "fst (fst (isNodeJoin demo [?np, ?run, ?le] ?c demo_cluster (0, [])))"
    by (rule iffD2)
  with found_search [THEN conjunct2, THEN conjunct2, THEN conjunct2, THEN conjunct1]
  have "snd (fst (isNodeJoin demo [?np, ?run, ?le] ?c demo_cluster (0, []))) = None"
    by blast
  with j2 have 2: "fst (isNodeJoin demo [?np, ?run, ?le] ?c demo_cluster (0, [])) = (True, None)"
    by (simp add: prod_eq_iff)
  note none_search = isNodeJoin_classification [OF cls [of "[?np]" ?c],
      THEN conjunct2, THEN conjunct1, THEN mp, OF lab(2)]
  from none_search [THEN conjunct2, THEN conjunct2, THEN conjunct1] absent
  have "\<not> fst (fst (isNodeJoin demo [?np] ?c demo_cluster (0, []))) \<and>
        snd (fst (isNodeJoin demo [?np] ?c demo_cluster (0, []))) = None"
    by (rule iffD1)
  then have 3: "fst (isNodeJoin demo [?np] ?c demo_cluster (0, [])) = (False, None)"
    by (simp add: prod_eq_iff)
  have broken: "fst (ask demo demo_cluster ?le (asked demo demo_cluster [] (0, []))) =
      Inl (Wrapf (External ''RequestLimitExceeded'')
             ''failed to verify existence of machine %q'' [''lookup-error''])"
    by (simp add: ask_def demo_defs)
  have ex': "\<exists>pre cm post. [?le, ?run] = pre @ cm # post \<and> none_exists demo demo_cluster pre (0, []) \<and>
          fst (ask demo demo_cluster cm (asked demo demo_cluster pre (0, []))) =
            Inl (Wrapf (External ''RequestLimitExceeded'')
                   ''failed to verify existence of machine %q'' [''lookup-error''])"
    using broken by (intro exI [of _ "[]"] exI [of _ ?le] exI [of _ "[?run]"]) simp
  note failed_search = isNodeJoin_classification [OF cls [of "[?le, ?run]" ?c],
      THEN conjunct2, THEN conjunct1, THEN mp, OF lab(2)]
  from failed_search [THEN conjunct2, THEN conjunct1, THEN spec] ex'
  have e4: "snd (fst (isNodeJoin demo [?le, ?run] ?c demo_cluster (0, []))) =
      Some (Wrapf (External ''RequestLimitExceeded'')
          ''failed to verify existence of machine %q'' [''lookup-error''])"
    by (rule iffD2)
  with failed_search [THEN conjunct2, THEN conjunct2, THEN conjunct2, THEN conjunct1]
  have "\<not> fst (fst (isNodeJoin demo [?le, ?run] ?c demo_cluster (0, [])))"
    by simp
  with e4 have 4: "fst (isNodeJoin demo [?le, ?run] ?c demo_cluster (0, [])) =
      (False, Some (Wrapf (External ''RequestLimitExceeded'')
          ''failed to verify existence of machine %q'' [''lookup-error'']))"
    by (simp add: prod_eq_iff)
  have prefix: "NewMachineScope demo ?e demo_cluster 0 = (Inr (demo_scope ?e demo_cluster), 1)"
    "GetIP demo demo_cluster 1 = (Inr ''https://test1'', 2)"
    "MachineClient_List demo (demo_scope ?e demo_cluster) 2 = (Inr demo_machines, 3)"
    by (simp_all add: demo_def demo_machine_def demo_cluster_def demo_scope_def)
  have unknown: \<open>isNodeJoin demo (getControlPlaneMachines demo_machines) ?e demo_cluster
      (3, [EvNewMachineScope ?e demo_cluster (Inr (demo_scope ?e demo_cluster)),
           EvGetIP demo_cluster (Inr ''https://test1''),
           EvList (demo_scope ?e demo_cluster) (Inr demo_machines)]) =
      ((False, Some (Errorf (Sprintf demo
          ''Unknown value %q for label "set" on machine %q, skipping machine creation''
          [''etcd'', ''fresh'']) [] None)),
       3, [EvNewMachineScope ?e demo_cluster (Inr (demo_scope ?e demo_cluster)),
           EvGetIP demo_cluster (Inr ''https://test1''),
           EvList (demo_scope ?e demo_cluster) (Inr demo_machines)])\<close>
    by (simp add: isNodeJoin_def demo_machine_def index_def)
  have close: "Close demo sc 3 = 4" "Name ?e = ''fresh''" "ClusterName demo_cluster = ''test1''"
    for sc
    by (simp_all add: demo_def demo_machine_def demo_cluster_def)
  from isNodeJoin_classification [OF cls [of "[]" ?e], THEN conjunct2, THEN conjunct2,
      THEN conjunct2, THEN spec, THEN spec, THEN spec, THEN spec, THEN spec, THEN spec,
      THEN spec, THEN spec, THEN spec, THEN spec, THEN spec, THEN mp,
      OF conjI [OF prefix(1) conjI [OF prefix(2) conjI [OF prefix(3) unknown]]]]
  have created: \<open>Create demo demo_cluster ?e 0 =
     (Return (Some (Wrapf
        (Errorf (Sprintf demo
           ''Unknown value %q for label "set" on machine %q, skipping machine creation''
           [''etcd'', ''fresh'']) [] None)
        ''failed to determine whether machine %q should join cluster %q''
        [Name ?e, ClusterName demo_cluster])),
      ?e, Close demo (demo_scope ?e demo_cluster) 3,
      [EvNewMachineScope ?e demo_cluster (Inr (demo_scope ?e demo_cluster)),
       EvGetIP demo_cluster (Inr ''https://test1''),
       EvList (demo_scope ?e demo_cluster) (Inr demo_machines)] @
      [EvClose (demo_scope ?e demo_cluster)])\<close>
    by (rule conjunct1)
  with close have 5: \<open>fst (Create demo demo_cluster ?e 0) =
     Return (Some (Wrapf
       (Errorf (Sprintf demo
          ''Unknown value %q for label "set" on machine %q, skipping machine creation''
          [''etcd'', ''fresh'']) [] None)
       ''failed to determine whether machine %q should join cluster %q''
       [''fresh'', ''test1'']))\<close>
    "fst (snd (snd (Create demo demo_cluster ?e 0))) = 4"
    "filter is_CreateOrGetMachine (snd (snd (snd (Create demo demo_cluster ?e 0)))) = []"
    by (simp_all add: is_CreateOrGetMachine_def)
  from 1 2 3 4 5 show ?thesis by blast
qed

text \<open>
  C6. Take a run of \<^verbatim>\<open>Create\<close> in which the scope, the address of the control plane and
  the list of machines were obtained and the classification ended without error. If the
  machine joins, \<^verbatim>\<open>getNodeJoinToken\<close> runs in the world the classification left: when it
  fails, \<^verbatim>\<open>Create\<close> returns its error wrapped, leaves the world the failed step left
  (closed), and its log has no provisioning call; when it returns a token, the one
  provisioning call of the log follows it and is made with that token. If the machine
  does not join, the log has no step towards a token, and the one provisioning call is
  made with the empty token in the world that follows the classification and the reading
  of the kubeconfig. \<^verbatim>\<open>getNodeJoinToken\<close> reads the kubeconfig, builds the client
  configuration and the client, and fails with the error of the first of these that
  fails; when they succeed its result is the reply of \<^verbatim>\<open>NewBootstrap\<close> for that client
  with a time to live of 10 * \<^verbatim>\<open>time.Minute\<close>, which is 600 * 10^9 nanoseconds, the world
  it leaves is the one \<^verbatim>\<open>NewBootstrap\<close> produced, and a failure is wrapped.
\<close>

theorem Create_bootstrap_token:
  assumes scope: "NewMachineScope B machine cluster w = (Inr scope, w1)"
      and ip: "GetIP B cluster w1 = (Inr url, w2)"
      and list: "MachineClient_List B scope w2 = (Inr ms, w3)"
      and cls: "isNodeJoin B (getControlPlaneMachines ms) machine cluster
                  (w3, [EvNewMachineScope machine cluster (Inr scope),
                        EvGetIP cluster (Inr url), EvList scope (Inr ms)])
                = ((join, None), w4, tr4)"
  shows "(join \<longrightarrow>
            (case getNodeJoinToken B cluster url (w4, tr4) of
               (Inl err, w5, tr5) \<Rightarrow>
                 Create B cluster machine w =
                   (Return (Some (Wrapf err
                      ''failed to obtain token for node %q to join cluster %q''
                      [Name machine, ClusterName cluster])),
                    machine, Close B scope w5, tr5 @ [EvClose scope]) \<and>
                 filter is_CreateOrGetMachine (tr5 @ [EvClose scope]) = []
             | (Inr tok, w5, tr5) \<Rightarrow>
                 (case GetKubeConfig B cluster w5 of
                    (Inl e, w6) \<Rightarrow>
                      Create B cluster machine w =
                        (Return (Some (Wrapf e
                           ''failed to retrieve kubeconfig while creating machine %q''
                           [Name machine])),
                         machine, Close B scope w6,
                         tr5 @ [EvGetKubeConfig cluster (Inl e), EvClose scope])
                  | (Inr kc, w6) \<Rightarrow>
                      (\<exists>post. snd (snd (snd (Create B cluster machine w))) =
                                tr5 @ [EvGetKubeConfig cluster (Inr kc),
                                       EvCreateOrGetMachine scope tok kc
                                         (fst (CreateOrGetMachine B scope tok kc w6))] @ post \<and>
                              filter is_token_step post = []) \<and>
                      filter is_CreateOrGetMachine (snd (snd (snd (Create B cluster machine w)))) =
                        [EvCreateOrGetMachine scope tok kc
                           (fst (CreateOrGetMachine B scope tok kc w6))]))) \<and>
         (\<not> join \<longrightarrow>
            filter is_token_step (snd (snd (snd (Create B cluster machine w)))) = [] \<and>
            (case GetKubeConfig B cluster w4 of
               (Inl e, w6) \<Rightarrow>
                 Create B cluster machine w =
                   (Return (Some (Wrapf e
                      ''failed to retrieve kubeconfig while creating machine %q''
                      [Name machine])),
                    machine, Close B scope w6,
                    tr4 @ [EvGetKubeConfig cluster (Inl e), EvClose scope])
             | (Inr kc, w6) \<Rightarrow>
                 (\<exists>post. snd (snd (snd (Create B cluster machine w))) =
                           tr4 @ [EvGetKubeConfig cluster (Inr kc),
                                  EvCreateOrGetMachine scope [] kc
                                    (fst (CreateOrGetMachine B scope [] kc w6))] @ post) \<and>
                 filter is_CreateOrGetMachine (snd (snd (snd (Create B cluster machine w)))) =
                   [EvCreateOrGetMachine scope [] kc
                      (fst (CreateOrGetMachine B scope [] kc w6))])) \<and>
         (\<forall>e w5. GetKubeConfig B cluster w4 = (Inl e, w5) \<longrightarrow>
            getNodeJoinToken B cluster url (w4, tr4) =
              (Inl (Wrapf e ''failed to retrieve kubeconfig for cluster %q.''
                      [ClusterName cluster]),
               w5, tr4 @ [EvGetKubeConfig cluster (Inl e)])) \<and>
         (\<forall>kc w5 e w6. GetKubeConfig B cluster w4 = (Inr kc, w5) \<and>
            BuildConfigFromKubeconfigGetter B url kc w5 = (Inl e, w6) \<longrightarrow>
            getNodeJoinToken B cluster url (w4, tr4) =
              (Inl (Wrapf e ''failed to get client config for cluster at %q'' [url]),
               w6, tr4 @ [EvGetKubeConfig cluster (Inr kc),
                          EvBuildConfigFromKubeconfigGetter url kc (Inl e)])) \<and>
         (\<forall>kc w5 cfg w6 e w7. GetKubeConfig B cluster w4 = (Inr kc, w5) \<and>
            BuildConfigFromKubeconfigGetter B url kc w5 = (Inr cfg, w6) \<and>
            NewForConfig B cfg w6 = (Inl e, w7) \<longrightarrow>
            getNodeJoinToken B cluster url (w4, tr4) =
              (Inl (Wrapf e ''failed to initialize new corev1 client'' []),
               w7, tr4 @ [EvGetKubeConfig cluster (Inr kc),
                          EvBuildConfigFromKubeconfigGetter url kc (Inr cfg),
                          EvNewForConfig cfg (Inl e)])) \<and>
         (\<forall>kc w5 cfg w6 client w7. GetKubeConfig B cluster w4 = (Inr kc, w5) \<and>
            BuildConfigFromKubeconfigGetter B url kc w5 = (Inr cfg, w6) \<and>
            NewForConfig B cfg w6 = (Inr client, w7) \<longrightarrow>
            getNodeJoinToken B cluster url (w4, tr4) =
              (map_sum (\<lambda>e. Wrapf e ''failed to create new bootstrap token'' []) id
                 (fst (NewBootstrap B client (10 * time_Minute) w7)),
               snd (NewBootstrap B client (10 * time_Minute) w7),
               tr4 @ [EvGetKubeConfig cluster (Inr kc),
                      EvBuildConfigFromKubeconfigGetter url kc (Inr cfg),
                      EvNewForConfig cfg (Inr client),
                      EvNewBootstrap client (10 * time_Minute)
                        (fst (NewBootstrap B client (10 * time_Minute) w7))])) \<and>
         10 * time_Minute = 600 * 1000000000"
proof -
  note quiet = classified_no_provisioning [OF cls]
  have joining: "case getNodeJoinToken B cluster url (w4, tr4) of
               (Inl err, w5, tr5) \<Rightarrow>
                 Create B cluster machine w =
                   (Return (Some (Wrapf err
                      ''failed to obtain token for node %q to join cluster %q''
                      [Name machine, ClusterName cluster])),
                    machine, Close B scope w5, tr5 @ [EvClose scope]) \<and>
                 filter is_CreateOrGetMachine (tr5 @ [EvClose scope]) = []
             | (Inr tok, w5, tr5) \<Rightarrow>
                 (case GetKubeConfig B cluster w5 of
                    (Inl e, w6) \<Rightarrow>
                      Create B cluster machine w =
                        (Return (Some (Wrapf e
                           ''failed to retrieve kubeconfig while creating machine %q''
                           [Name machine])),
                         machine, Close B scope w6,
                         tr5 @ [EvGetKubeConfig cluster (Inl e), EvClose scope])
                  | (Inr kc, w6) \<Rightarrow>
                      (\<exists>post. snd (snd (snd (Create B cluster machine w))) =
                                tr5 @ [EvGetKubeConfig cluster (Inr kc),
                                       EvCreateOrGetMachine scope tok kc
                                         (fst (CreateOrGetMachine B scope tok kc w6))] @ post \<and>
                              filter is_token_step post = []) \<and>
                      filter is_CreateOrGetMachine (snd (snd (snd (Create B cluster machine w)))) =
                        [EvCreateOrGetMachine scope tok kc
                           (fst (CreateOrGetMachine B scope tok kc w6))])" if join
  proof -
    obtain r w5 tr5 where tok: "getNodeJoinToken B cluster url (w4, tr4) = (r, w5, tr5)"
      by (cases "getNodeJoinToken B cluster url (w4, tr4)") auto
    note quiet5 = token_no_provisioning [OF tok, unfolded quiet]
    show ?thesis
    proof (cases r)
      case (Inl err)
      with Create_token_failed [OF scope ip list cls [unfolded \<open>join\<close> [THEN eqTrueI]]] tok
      show ?thesis by simp
    next
      case (Inr tk)
      with tok \<open>join\<close>
      have "(if join then getNodeJoinToken B cluster url (w4, tr4) else (Inr [], w4, tr4))
              = (Inr tk, w5, tr5)"
        by simp
      note prov = Create_provisioning [OF scope ip list cls this]
      obtain r6 w6 where kcfg: "GetKubeConfig B cluster w5 = (r6, w6)"
        by (cases "GetKubeConfig B cluster w5")
      show ?thesis
      proof (cases r6)
        case (Inl e)
        with prov kcfg tok Inr show ?thesis by simp
      next
        case r6: (Inr kc)
        with prov kcfg obtain post where
          log: "snd (snd (snd (Create B cluster machine w))) =
                  tr5 @ [EvGetKubeConfig cluster (Inr kc),
                         EvCreateOrGetMachine scope tk kc
                           (fst (CreateOrGetMachine B scope tk kc w6))] @ post"
          and post: "filter is_token_step post = []" "filter is_CreateOrGetMachine post = []"
          by auto
        from log post quiet5
        have "filter is_CreateOrGetMachine (snd (snd (snd (Create B cluster machine w)))) =
                [EvCreateOrGetMachine scope tk kc (fst (CreateOrGetMachine B scope tk kc w6))]"
          by (simp add: is_CreateOrGetMachine_def)
        with log post tok Inr kcfg r6 show ?thesis by auto
      qed
    qed
  qed
  have waiting: "filter is_token_step (snd (snd (snd (Create B cluster machine w)))) = [] \<and>
            (case GetKubeConfig B cluster w4 of
               (Inl e, w6) \<Rightarrow>
                 Create B cluster machine w =
                   (Return (Some (Wrapf e
                      ''failed to retrieve kubeconfig while creating machine %q''
                      [Name machine])),
                    machine, Close B scope w6,
                    tr4 @ [EvGetKubeConfig cluster (Inl e), EvClose scope])
             | (Inr kc, w6) \<Rightarrow>
                 (\<exists>post. snd (snd (snd (Create B cluster machine w))) =
                           tr4 @ [EvGetKubeConfig cluster (Inr kc),
                                  EvCreateOrGetMachine scope [] kc
                                    (fst (CreateOrGetMachine B scope [] kc w6))] @ post) \<and>
                 filter is_CreateOrGetMachine (snd (snd (snd (Create B cluster machine w)))) =
                   [EvCreateOrGetMachine scope [] kc
                      (fst (CreateOrGetMachine B scope [] kc w6))])" if "\<not> join"
  proof -
    note silent = classified_no_token_step [OF cls]
    from that
    have "(if join then getNodeJoinToken B cluster url (w4, tr4) else (Inr [], w4, tr4))
              = (Inr [], w4, tr4)"
      by simp
    note prov = Create_provisioning [OF scope ip list cls this]
    obtain r6 w6 where kcfg: "GetKubeConfig B cluster w4 = (r6, w6)"
      by (cases "GetKubeConfig B cluster w4")
    show ?thesis
    proof (cases r6)
      case (Inl e)
      with prov kcfg silent show ?thesis by (simp add: is_token_step_def)
    next
      case r6: (Inr kc)
      with prov kcfg obtain post where
        log: "snd (snd (snd (Create B cluster machine w))) =
                tr4 @ [EvGetKubeConfig cluster (Inr kc),
                       EvCreateOrGetMachine scope [] kc
                         (fst (CreateOrGetMachine B scope [] kc w6))] @ post"
        and post: "filter is_token_step post = []" "filter is_CreateOrGetMachine post = []"
        by auto
      from log post quiet
      have one: "filter is_CreateOrGetMachine (snd (snd (snd (Create B cluster machine w)))) =
              [EvCreateOrGetMachine scope [] kc (fst (CreateOrGetMachine B scope [] kc w6))]"
        by (simp add: is_CreateOrGetMachine_def)
      from log post silent
      have "filter is_token_step (snd (snd (snd (Create B cluster machine w)))) = []"
        by (simp add: is_token_step_def)
      with one log kcfg r6 show ?thesis by auto
    qed
  qed
  note steps = getNodeJoinToken_steps [of B cluster w4 url tr4]
  have ttl: "10 * time_Minute = 600 * 1000000000"
    by (simp add: time_Minute_def time_Second_def)
  from joining have 1: "join \<longrightarrow>
            (case getNodeJoinToken B cluster url (w4, tr4) of
               (Inl err, w5, tr5) \<Rightarrow>
                 Create B cluster machine w =
                   (Return (Some (Wrapf err
                      ''failed to obtain token for node %q to join cluster %q''
                      [Name machine, ClusterName cluster])),
                    machine, Close B scope w5, tr5 @ [EvClose scope]) \<and>
                 filter is_CreateOrGetMachine (tr5 @ [EvClose scope]) = []
             | (Inr tok, w5, tr5) \<Rightarrow>
                 (case GetKubeConfig B cluster w5 of
                    (Inl e, w6) \<Rightarrow>
                      Create B cluster machine w =
                        (Return (Some (Wrapf e
                           ''failed to retrieve kubeconfig while creating machine %q''
                           [Name machine])),
                         machine, Close B scope w6,
                         tr5 @ [EvGetKubeConfig cluster (Inl e), EvClose scope])
                  | (Inr kc, w6) \<Rightarrow>
                      (\<exists>post. snd (snd (snd (Create B cluster machine w))) =
                                tr5 @ [EvGetKubeConfig cluster (Inr kc),
                                       EvCreateOrGetMachine scope tok kc
                                         (fst (CreateOrGetMachine B scope tok kc w6))] @ post \<and>
                              filter is_token_step post = []) \<and>
                      filter is_CreateOrGetMachine (snd (snd (snd (Create B cluster machine w)))) =
                        [EvCreateOrGetMachine scope tok kc
                           (fst (CreateOrGetMachine B scope tok kc w6))]))"
    by (rule impI)
  from waiting have 2: "\<not> join \<longrightarrow>
            filter is_token_step (snd (snd (snd (Create B cluster machine w)))) = [] \<and>
            (case GetKubeConfig B cluster w4 of
               (Inl e, w6) \<Rightarrow>
                 Create B cluster machine w =
                   (Return (Some (Wrapf e
                      ''failed to retrieve kubeconfig while creating machine %q''
                      [Name machine])),
                    machine, Close B scope w6,
                    tr4 @ [EvGetKubeConfig cluster (Inl e), EvClose scope])
             | (Inr kc, w6) \<Rightarrow>
                 (\<exists>post. snd (snd (snd (Create B cluster machine w))) =
                           tr4 @ [EvGetKubeConfig cluster (Inr kc),
                                  EvCreateOrGetMachine scope [] kc
                                    (fst (CreateOrGetMachine B scope [] kc w6))] @ post) \<and>
                 filter is_CreateOrGetMachine (snd (snd (snd (Create B cluster machine w)))) =
                   [EvCreateOrGetMachine scope [] kc
                      (fst (CreateOrGetMachine B scope [] kc w6))])"
    by (rule impI)
  show ?thesis
    by (rule conjI [OF 1 conjI [OF 2]]) (use steps ttl in blast)
qed

theorem Create_bootstrap_token_witness:
  "getNodeJoinToken demo demo_cluster ''https://test1''
     (3, [EvNewMachineScope (demo_machine ''fresh'' ''node'' []) demo_cluster
            (Inr (demo_scope (demo_machine ''fresh'' ''node'' []) demo_cluster)),
          EvGetIP demo_cluster (Inr ''https://test1''),
          EvList (demo_scope (demo_machine ''fresh'' ''node'' []) demo_cluster)
            (Inr demo_machines)]) =
     (Inr ''abcdef.0123456789abcdef'', 7,
      [EvNewMachineScope (demo_machine ''fresh'' ''node'' []) demo_cluster
         (Inr (demo_scope (demo_machine ''fresh'' ''node'' []) demo_cluster)),
       EvGetIP demo_cluster (Inr ''https://test1''),
       EvList (demo_scope (demo_machine ''fresh'' ''node'' []) demo_cluster) (Inr demo_machines),
       EvGetKubeConfig demo_cluster (Inr ''kubeconfig''),
       EvBuildConfigFromKubeconfigGetter ''https://test1'' ''kubeconfig'' (Inr ''https://test1''),
       EvNewForConfig ''https://test1'' (Inr ''https://test1''),
       EvNewBootstrap ''https://test1'' 600000000000 (Inr ''abcdef.0123456789abcdef'')]) \<and>
   filter is_CreateOrGetMachine
     (snd (snd (snd (Create demo demo_cluster (demo_machine ''fresh'' ''node'' []) 0)))) =
     [EvCreateOrGetMachine (demo_scope (demo_machine ''fresh'' ''node'' []) demo_cluster)
        ''abcdef.0123456789abcdef'' ''kubeconfig'' (Inr (demo_instance ''i-fresh''))] \<and>
   Create demo \<lparr>ClusterName = ''sealed''\<rparr> (demo_machine ''fresh'' ''node'' []) 0 =
     (Return (Some (Wrapf (Wrapf (External ''forbidden'')
                             ''failed to create new bootstrap token'' [])
                ''failed to obtain token for node %q to join cluster %q''
                [''fresh'', ''sealed''])),
      demo_machine ''fresh'' ''node'' [], 8,
      [EvNewMachineScope (demo_machine ''fresh'' ''node'' []) \<lparr>ClusterName = ''sealed''\<rparr>
         (Inr (demo_scope (demo_machine ''fresh'' ''node'' []) \<lparr>ClusterName = ''sealed''\<rparr>)),
       EvGetIP \<lparr>ClusterName = ''sealed''\<rparr> (Inr ''https://sealed''),
       EvList (demo_scope (demo_machine ''fresh'' ''node'' []) \<lparr>ClusterName = ''sealed''\<rparr>)
         (Inr demo_machines),
       EvGetKubeConfig \<lparr>ClusterName = ''sealed''\<rparr> (Inr ''kubeconfig''),
       EvBuildConfigFromKubeconfigGetter ''https://sealed'' ''kubeconfig''
         (Inr ''https://sealed''),
       EvNewForConfig ''https://sealed'' (Inr ''https://sealed''),
       EvNewBootstrap ''https://sealed'' 600000000000 (Inl (External ''forbidden'')),
       EvClose (demo_scope (demo_machine ''fresh'' ''node'' []) \<lparr>ClusterName = ''sealed''\<rparr>)]) \<and>
   filter is_token_step
     (snd (snd (snd (Create demo \<lparr>ClusterName = ''empty''\<rparr>
        (demo_machine ''first'' ''controlplane'' ''1.13.0'') 0)))) = [] \<and>
   filter is_CreateOrGetMachine
     (snd (snd (snd (Create demo \<lparr>ClusterName = ''empty''\<rparr>
        (demo_machine ''first'' ''controlplane'' ''1.13.0'') 0)))) =
     [EvCreateOrGetMachine
        (demo_scope (demo_machine ''first'' ''controlplane'' ''1.13.0'') \<lparr>ClusterName = ''empty''\<rparr>)
        [] ''kubeconfig'' (Inr (demo_instance ''i-first''))]"
proof -
  let ?f = "demo_machine ''fresh'' ''node'' []"
  let ?c = "demo_machine ''first'' ''controlplane'' ''1.13.0''"
  let ?sealed = "\<lparr>ClusterName = ''sealed''\<rparr>"
  let ?empty = "\<lparr>ClusterName = ''empty''\<rparr>"
  have scope: "NewMachineScope demo m c 0 = (Inr (demo_scope m c), 1)"
    if "Name m \<noteq> ''undecodable''" for m c
    using that by (simp add: demo_def)
  have names: "Name ?f \<noteq> ''undecodable''" "Name ?c \<noteq> ''undecodable''"
    by (simp_all add: demo_machine_def)
  have ip: "GetIP demo c 1 = (Inr (''https://'' @ ClusterName c), 2)" for c
    by (simp add: demo_def)
  have list: "MachineClient_List demo (demo_scope m demo_cluster) 2 = (Inr demo_machines, 3)"
    "MachineClient_List demo (demo_scope m ?sealed) 2 = (Inr demo_machines, 3)"
    "MachineClient_List demo (demo_scope m ?empty) 2 = (Inr [], 3)" for m
    by (simp_all add: demo_def demo_scope_def demo_cluster_def)
  have node: "isNodeJoin demo cps ?f c s = ((True, None), s)" for cps c s
    by (simp add: isNodeJoin_def demo_machine_def index_def)
  have none: "isNodeJoin demo (getControlPlaneMachines []) ?c c s = ((False, None), s)" for c s
    by (simp add: isNodeJoin_def getControlPlaneMachines_def demo_machine_def index_def)
  have kube: "GetKubeConfig demo c w = (Inr ''kubeconfig'', Suc w)" for c w
    by (simp add: demo_def)
  have build: "BuildConfigFromKubeconfigGetter demo url kc w = (Inr url, Suc w)" for url kc w
    by (simp add: demo_def)
  have client: "NewForConfig demo cfg w = (Inr cfg, Suc w)" for cfg w
    by (simp add: demo_def)
  have issue: "NewBootstrap demo ''https://test1'' ttl w = (Inr ''abcdef.0123456789abcdef'', Suc w)"
    "NewBootstrap demo ''https://sealed'' ttl w = (Inl (External ''forbidden''), Suc w)" for ttl w
    by (simp_all add: demo_def)
  have provision: "CreateOrGetMachine demo (demo_scope ?f demo_cluster) tok kc w =
      (Inr (demo_instance ''i-fresh''), Suc w)"
    "CreateOrGetMachine demo (demo_scope ?c ?empty) tok kc w =
      (Inr (demo_instance ''i-first''), Suc w)" for tok kc w
    by (simp_all add: demo_def demo_scope_def demo_machine_def)
  have name: "Name ?f = ''fresh''"
    by (simp add: demo_machine_def)
  have close: "Close demo sc w = Suc w" for sc w
    by (simp add: demo_def)
  have url: "''https://'' @ ClusterName demo_cluster = ''https://test1''"
    "''https://'' @ ClusterName ?sealed = ''https://sealed''"
    by (simp_all add: demo_cluster_def)
  note A = Create_bootstrap_token [OF scope [OF names(1), of demo_cluster] ip list(1) node,
             unfolded url]
  note B = Create_bootstrap_token [OF scope [OF names(1), of ?sealed] ip list(2) node,
             unfolded url]
  note C = Create_bootstrap_token [OF scope [OF names(2), of ?empty] ip list(3) none]
  note ttl = A [THEN conjunct2, THEN conjunct2, THEN conjunct2, THEN conjunct2,
                THEN conjunct2, THEN conjunct2]
  note tokA = A [THEN conjunct2, THEN conjunct2, THEN conjunct2, THEN conjunct2,
                THEN conjunct2, THEN conjunct1, rule_format,
                OF conjI [OF kube conjI [OF build client]]]
  note tokB = B [THEN conjunct2, THEN conjunct2, THEN conjunct2, THEN conjunct2,
                THEN conjunct2, THEN conjunct1, rule_format,
                OF conjI [OF kube conjI [OF build client]]]
  have 1: "getNodeJoinToken demo demo_cluster ''https://test1''
     (3, [EvNewMachineScope ?f demo_cluster (Inr (demo_scope ?f demo_cluster)),
          EvGetIP demo_cluster (Inr ''https://test1''),
          EvList (demo_scope ?f demo_cluster) (Inr demo_machines)]) =
     (Inr ''abcdef.0123456789abcdef'', 7,
      [EvNewMachineScope ?f demo_cluster (Inr (demo_scope ?f demo_cluster)),
       EvGetIP demo_cluster (Inr ''https://test1''),
       EvList (demo_scope ?f demo_cluster) (Inr demo_machines),
       EvGetKubeConfig demo_cluster (Inr ''kubeconfig''),
       EvBuildConfigFromKubeconfigGetter ''https://test1'' ''kubeconfig'' (Inr ''https://test1''),
       EvNewForConfig ''https://test1'' (Inr ''https://test1''),
       EvNewBootstrap ''https://test1'' 600000000000 (Inr ''abcdef.0123456789abcdef'')])"
    using tokA by (simp add: issue ttl)
  have 2: "filter is_CreateOrGetMachine
     (snd (snd (snd (Create demo demo_cluster ?f 0)))) =
     [EvCreateOrGetMachine (demo_scope ?f demo_cluster)
        ''abcdef.0123456789abcdef'' ''kubeconfig'' (Inr (demo_instance ''i-fresh''))]"
    using A [THEN conjunct1] by (simp add: 1 kube provision)
  have 3: "Create demo ?sealed ?f 0 =
     (Return (Some (Wrapf (Wrapf (External ''forbidden'')
                             ''failed to create new bootstrap token'' [])
                ''failed to obtain token for node %q to join cluster %q''
                [''fresh'', ''sealed''])),
      ?f, 8,
      [EvNewMachineScope ?f ?sealed (Inr (demo_scope ?f ?sealed)),
       EvGetIP ?sealed (Inr ''https://sealed''),
       EvList (demo_scope ?f ?sealed) (Inr demo_machines),
       EvGetKubeConfig ?sealed (Inr ''kubeconfig''),
       EvBuildConfigFromKubeconfigGetter ''https://sealed'' ''kubeconfig''
         (Inr ''https://sealed''),
       EvNewForConfig ''https://sealed'' (Inr ''https://sealed''),
       EvNewBootstrap ''https://sealed'' 600000000000 (Inl (External ''forbidden'')),
       EvClose (demo_scope ?f ?sealed)])"
    using B [THEN conjunct1] by (simp add: tokB issue ttl close name)
  have 4: "filter is_token_step (snd (snd (snd (Create demo ?empty ?c 0)))) = []"
    using C [THEN conjunct2, THEN conjunct1] by simp
  have 5: "filter is_CreateOrGetMachine (snd (snd (snd (Create demo ?empty ?c 0)))) =
     [EvCreateOrGetMachine (demo_scope ?c ?empty) [] ''kubeconfig''
        (Inr (demo_instance ''i-first''))]"
    using C [THEN conjunct2, THEN conjunct1] by (simp add: kube provision)
  show ?thesis
    by (rule conjI [OF 1 conjI [OF 2 conjI [OF 3 conjI [OF 4 5]]]])
qed

subsection \<open>Update\<close>




subsection \<open>The scope\<close>

text \<open>
  C7. When the scope of a verb is built, the log of the verb ends with the closing of
  the scope, which happens exactly once, and the world the verb leaves is the one the
  close produced; this holds however the body ended, with success, with an error, with
  an early return or with a panic. \<^verbatim>\<open>Delete\<close>, \<^verbatim>\<open>Update\<close> and \<^verbatim>\<open>Exists\<close> close the scope as
  it was built. \<^verbatim>\<open>Create\<close> closes the scope with the instance ID and state written to
  its status as soon as the provisioning call returned an instance, also when the verb
  then returns an error, and closes the scope as it was built otherwise.
\<close>

theorem scope_closed_on_every_exit:
  assumes scope: "NewMachineScope B machine cluster w = (Inr scope, w1)"
      and c: "Create B cluster machine w = (out_c, machine', w_c, tr_c)"
      and d: "Delete B cluster machine w = (out_d, w_d, tr_d)"
      and u: "Update B cluster machine w = (out_u, w_u, tr_u)"
      and e: "Exists B cluster machine w = (out_e, w_e, tr_e)"
  shows "(\<exists>pre w0 scope'. tr_c = pre @ [EvClose scope'] \<and> filter is_Close pre = [] \<and>
            w_c = Close B scope' w0 \<and>
            (\<forall>sc tok kc i. EvCreateOrGetMachine sc tok kc (Inr i) \<in> set tr_c \<longrightarrow>
               scope' = scope\<lparr>MachineStatus := (MachineStatus scope)
                          \<lparr>InstanceID := Some (ID i), InstanceState := Some (State i)\<rparr>\<rparr>) \<and>
            ((\<forall>sc tok kc i. EvCreateOrGetMachine sc tok kc (Inr i) \<notin> set tr_c) \<longrightarrow>
               scope' = scope)) \<and>
         (\<exists>pre w0. tr_d = pre @ [EvClose scope] \<and> filter is_Close pre = [] \<and>
            w_d = Close B scope w0) \<and>
         (\<exists>pre w0. tr_u = pre @ [EvClose scope] \<and> filter is_Close pre = [] \<and>
            w_u = Close B scope w0) \<and>
         (\<exists>pre w0. tr_e = pre @ [EvClose scope] \<and> filter is_Close pre = [] \<and>
            w_e = Close B scope w0)"
  by (rule conjI [OF Create_closes [OF c scope] conjI [OF Delete_closes [OF d scope]
        conjI [OF Update_closes [OF u scope] Exists_closes [OF e scope]]]])

theorem scope_closed_on_every_exit_witness:
  "(\<exists>scope'. last (snd (snd (snd (Create demo demo_cluster
       (demo_machine ''unreachable'' ''controlplane'' []) 0)))) = EvClose scope' \<and>
      InstanceState (MachineStatus scope') = Some ''running'') \<and>
   fst (Create demo demo_cluster (demo_machine ''unreachable'' ''controlplane'' []) 0) =
     Return (Some (lb_error (demo_instance ''i-unreachable'') (External ''LoadBalancerNotFound''))) \<and>
   fst (Delete demo demo_cluster (demo_machine ''never-provisioned'' ''node'' []) 0) = Panic \<and>
   last (snd (snd (Delete demo demo_cluster (demo_machine ''never-provisioned'' ''node'' []) 0)))
     = EvClose (demo_scope (demo_machine ''never-provisioned'' ''node'' []) demo_cluster)"
proof -
  let ?m = "demo_machine ''unreachable'' ''controlplane'' []"
  let ?n = "demo_machine ''never-provisioned'' ''node'' []"
  have c: "Create demo demo_cluster m 0 =
      (fst (Create demo demo_cluster m 0), fst (snd (Create demo demo_cluster m 0)),
       fst (snd (snd (Create demo demo_cluster m 0))),
       snd (snd (snd (Create demo demo_cluster m 0))))" for m
    by simp
  have d: "Delete demo demo_cluster m 0 = (fst (Delete demo demo_cluster m 0),
       fst (snd (Delete demo demo_cluster m 0)), snd (snd (Delete demo demo_cluster m 0)))"
    and u: "Update demo demo_cluster m 0 = (fst (Update demo demo_cluster m 0),
       fst (snd (Update demo demo_cluster m 0)), snd (snd (Update demo demo_cluster m 0)))"
    and e: "Exists demo demo_cluster m 0 = (fst (Exists demo demo_cluster m 0),
       fst (snd (Exists demo demo_cluster m 0)), snd (snd (Exists demo demo_cluster m 0)))"
    for m
    by simp_all
  have scope: "NewMachineScope demo m demo_cluster 0 = (Inr (demo_scope m demo_cluster), 1)"
    if "Name m \<noteq> ''undecodable''" for m
    using that by (simp add: demo_def)
  have names: "Name ?m \<noteq> ''undecodable''" "Name ?n \<noteq> ''undecodable''"
    by (simp_all add: demo_machine_def)
  have cog: "EvCreateOrGetMachine (demo_scope ?m demo_cluster) ''abcdef.0123456789abcdef''
               ''kubeconfig'' (Inr (demo_instance ''i-unreachable''))
             \<in> set (snd (snd (snd (Create demo demo_cluster ?m 0))))"
    by (simp add: Create_defs demo_defs)
  have out: "fst (Create demo demo_cluster ?m 0) =
     Return (Some (lb_error (demo_instance ''i-unreachable'') (External ''LoadBalancerNotFound'')))"
    by (simp add: Create_defs demo_defs lb_error_def)
  have panic: "fst (Delete demo demo_cluster ?n 0) = Panic"
    by (simp add: Delete_def Delete_body_def call_def close_def demo_def demo_scope_def
          demo_machine_def)
  let ?tr = "snd (snd (snd (Create demo demo_cluster ?m 0)))"
  from scope_closed_on_every_exit [OF scope [OF names(1)] c d u e]
  obtain pre scope' where tr: "?tr = pre @ [EvClose scope']"
    and wr: "\<forall>sc tok kc i. EvCreateOrGetMachine sc tok kc (Inr i) \<in> set ?tr \<longrightarrow>
               scope' = (demo_scope ?m demo_cluster)\<lparr>MachineStatus :=
                  (MachineStatus (demo_scope ?m demo_cluster))
                    \<lparr>InstanceID := Some (ID i), InstanceState := Some (State i)\<rparr>\<rparr>"
    by blast
  from wr cog have "scope' = (demo_scope ?m demo_cluster)\<lparr>MachineStatus :=
       (MachineStatus (demo_scope ?m demo_cluster))
         \<lparr>InstanceID := Some (ID (demo_instance ''i-unreachable'')),
          InstanceState := Some (State (demo_instance ''i-unreachable''))\<rparr>\<rparr>"
    by blast
  then have "InstanceState (MachineStatus scope') = Some ''running''"
    by (simp add: demo_instance_def demo_state_def InstanceStateRunning_def)
  with tr have 1: "\<exists>scope'. last ?tr = EvClose scope' \<and>
      InstanceState (MachineStatus scope') = Some ''running''"
    by simp
  from scope_closed_on_every_exit [OF scope [OF names(2)] c d u e]
  obtain pre' where "snd (snd (Delete demo demo_cluster ?n 0)) =
      pre' @ [EvClose (demo_scope ?n demo_cluster)]"
    by blast
  then have 2: "last (snd (snd (Delete demo demo_cluster ?n 0))) =
      EvClose (demo_scope ?n demo_cluster)"
    by simp
  from 1 2 out panic show ?thesis by blast
qed

subsection \<open>The candidates of the search\<close>

text \<open>
  C10. \<^verbatim>\<open>getControlPlaneMachines\<close> keeps, in their order, exactly the machines whose
  \<^verbatim>\<open>Spec.Versions.ControlPlane\<close> is not empty; the label plays no part. In a run of
  \<^verbatim>\<open>Create\<close> that listed the machines of the cluster, the machines whose existence is
  searched (those a scope is built for after the verb's own) are a prefix of that
  selection, so no machine with an empty control-plane version is among them, whatever
  its label; and when the new machine is labelled \<^verbatim>\<open>controlplane\<close> and no check
  confirmed or failed, the search went through the whole selection.
\<close>

theorem Create_candidates_by_version:
  assumes run: "Create B cluster machine w = (out, machine', w', tr)"
      and listed: "EvList scope (Inr clusterMachines) \<in> set tr"
  shows "getControlPlaneMachines clusterMachines =
           filter (\<lambda>m. ControlPlane m \<noteq> []) clusterMachines \<and>
         prefix (scoped (tl tr)) (filter (\<lambda>m. ControlPlane m \<noteq> []) clusterMachines) \<and>
         (\<forall>m. ControlPlane m = [] \<longrightarrow> m \<notin> set (scoped (tl tr))) \<and>
         (index (Labels machine) ''set'' = ''controlplane'' \<and>
          (\<forall>ev\<in>set (tl tr). \<not> confirmed ev \<and> \<not> failed ev) \<longrightarrow>
            scoped (tl tr) = filter (\<lambda>m. ControlPlane m \<noteq> []) clusterMachines)"
proof -
  let ?sel = "filter (\<lambda>m. ControlPlane m \<noteq> []) clusterMachines"
  from Create_search [OF run listed] obtain evs post url where
    tl: "tl tr = [EvGetIP cluster (Inr url), EvList scope (Inr clusterMachines)] @ evs @ post"
    and post: "\<forall>ev\<in>set post. \<not> is_check ev"
    and cls: "(\<exists>join. cls_ok machine (getControlPlaneMachines clusterMachines) join evs) \<or>
              cls_failed machine (getControlPlaneMachines clusterMachines) evs"
    by blast
  have sc: "scoped (tl tr) = scoped evs"
    unfolding tl using scoped_other [OF post] by (simp add: scoped_Cons)
  have 1: "getControlPlaneMachines clusterMachines = ?sel"
    by (rule getControlPlaneMachines_filter)
  from cls have 2: "prefix (scoped (tl tr)) ?sel"
    unfolding sc 1 by (auto simp: cls_ok_def cls_failed_def)
  have 3: "\<forall>m. ControlPlane m = [] \<longrightarrow> m \<notin> set (scoped (tl tr))"
  proof (intro allI impI notI)
    fix m
    assume "ControlPlane m = []" "m \<in> set (scoped (tl tr))"
    with 2 have "m \<in> set ?sel" using set_mono_prefix by blast
    with \<open>ControlPlane m = []\<close> show False by simp
  qed
  have 4: "index (Labels machine) ''set'' = ''controlplane'' \<and>
          (\<forall>ev\<in>set (tl tr). \<not> confirmed ev \<and> \<not> failed ev) \<longrightarrow> scoped (tl tr) = ?sel"
  proof
    assume a: "index (Labels machine) ''set'' = ''controlplane'' \<and>
          (\<forall>ev\<in>set (tl tr). \<not> confirmed ev \<and> \<not> failed ev)"
    then have clean: "\<forall>ev\<in>set evs. \<not> confirmed ev \<and> \<not> failed ev"
      unfolding tl by simp
    from cls a clean have "scoped evs = getControlPlaneMachines clusterMachines"
      by (auto simp: cls_ok_def cls_failed_def confirmed_def split: if_splits)
    then show "scoped (tl tr) = ?sel" unfolding sc 1 .
  qed
  show ?thesis by (rule conjI [OF 1 conjI [OF 2 conjI [OF 3 4]]])
qed

theorem Create_candidates_by_version_witness:
  "demo_machine ''unversioned'' ''controlplane'' [] \<notin> set (scoped (tl (snd (snd (snd
      (Create demo demo_cluster (demo_machine ''fresh'' ''controlplane'' ''1.13.0'') 0)))))) \<and>
   demo_machine ''never-provisioned'' ''node'' ''1.13.0''
     \<in> set (getControlPlaneMachines demo_machines) \<and>
   demo_machine ''never-provisioned'' ''node'' ''1.13.0'' \<in> set (scoped (tl (snd (snd (snd
      (Create demo demo_cluster (demo_machine ''fresh'' ''controlplane'' ''1.13.0'') 0))))))"
proof -
  let ?c = "demo_machine ''fresh'' ''controlplane'' ''1.13.0''"
  let ?tr = "snd (snd (snd (Create demo demo_cluster ?c 0)))"
  have run: "Create demo demo_cluster ?c 0 =
      (fst (Create demo demo_cluster ?c 0), fst (snd (Create demo demo_cluster ?c 0)),
       fst (snd (snd (Create demo demo_cluster ?c 0))), ?tr)"
    by simp
  have listed: "EvList (demo_scope ?c demo_cluster) (Inr demo_machines) \<in> set ?tr"
    by (simp add: Create_defs demo_defs)
  have empty: "ControlPlane (demo_machine ''unversioned'' ''controlplane'' []) = []"
    by (simp add: demo_machine_def)
  have sel: "demo_machine ''never-provisioned'' ''node'' ''1.13.0''
               \<in> set (filter (\<lambda>m. ControlPlane m \<noteq> []) demo_machines)"
    by (simp add: demo_machines_def) (simp add: demo_machine_def)
  have searched: "demo_machine ''never-provisioned'' ''node'' ''1.13.0'' \<in> set (scoped (tl ?tr))"
    by (simp add: Create_defs demo_defs scoped_def)
  from Create_candidates_by_version [OF run listed] empty sel searched
  show ?thesis by simp
qed

end
